theory Spec2Isabelle
  imports Complex_Main "HOL-Library.Char_ord" "HOL-Library.List_Lexorder"
begin

section \<open>Salon booking backend: shared helpers of \<^verbatim>\<open>utils.py\<close>\<close>

subsection \<open>Prices\<close>

text \<open>
  Prices and discount values are Python numbers. They are modelled as exact rationals:
  the branch structure, the clamp at zero and the rounding to two decimals are the
  program's, the rounding error of binary floating point is not modelled.
  Python's \<^verbatim>\<open>round(x, 2)\<close> rounds to the nearest multiple of 1/100, a tie to the
  even neighbour.
\<close>

definition round_half_even :: "rat \<Rightarrow> int" where
  "round_half_even x =
     (let f = \<lfloor>x\<rfloor>; d = x - of_int f
      in if d < 1 / 2 then f
         else if 1 / 2 < d then f + 1
         else if even f then f else f + 1)"

definition round2 :: "rat \<Rightarrow> rat" where
  "round2 x = of_int (round_half_even (x * 100)) / 100"

text \<open>
  \<^verbatim>\<open>calculate_discounted_price(base_price, discount_type, discount_value)\<close>:
  the \<^verbatim>\<open>if / elif / else\<close> on the type string, then
  \<^verbatim>\<open>max(0, round(final_price, 2))\<close>.
\<close>

definition calculate_discounted_price :: "rat \<Rightarrow> string \<Rightarrow> rat \<Rightarrow> rat" where
  "calculate_discounted_price base_price discount_type discount_value =
     (let final_price =
            (if discount_type = ''percentage''
             then (let discount_amount = base_price * (discount_value / 100)
                   in base_price - discount_amount)
             else if discount_type = ''flat'' then base_price - discount_value
             else base_price)
      in max 0 (round2 final_price))"

subsection \<open>Dates and times\<close>

text \<open>
  A naive \<^verbatim>\<open>datetime\<close>: Python compares two of them field by field, year first.
  The server clock (\<^verbatim>\<open>datetime.now()\<close>) is an argument \<open>now\<close> of every operation
  that reads it.
\<close>

record datetime =
  dt_year :: nat
  dt_month :: nat
  dt_day :: nat
  dt_hour :: nat
  dt_minute :: nat
  dt_second :: nat
  dt_microsecond :: nat

definition dt_key :: "datetime \<Rightarrow> nat list" where
  "dt_key t = [dt_year t, dt_month t, dt_day t, dt_hour t, dt_minute t, dt_second t,
               dt_microsecond t]"

definition dt_less :: "datetime \<Rightarrow> datetime \<Rightarrow> bool" where
  "dt_less a b = (dt_key a < dt_key b)"

definition is_digit :: "char \<Rightarrow> bool" where
  "is_digit c = (c \<in> set ''0123456789'')"

definition digit_val :: "char \<Rightarrow> nat" where
  "digit_val c = of_char c - 48"

definition number :: "string \<Rightarrow> nat" where
  "number cs = foldl (\<lambda>n c. 10 * n + digit_val c) 0 cs"

text \<open>One or two ASCII digits, as the numeric directives of \<^verbatim>\<open>strptime\<close> read them.\<close>

definition digit_field :: "string \<Rightarrow> nat option" where
  "digit_field cs =
     (if cs \<noteq> [] \<and> length cs \<le> 2 \<and> list_all is_digit cs then Some (number cs) else None)"

definition split_at :: "char \<Rightarrow> string \<Rightarrow> (string \<times> string) option" where
  "split_at c s =
     (if c \<in> set s
      then Some (takeWhile (\<lambda>x. x \<noteq> c) s, tl (dropWhile (\<lambda>x. x \<noteq> c) s))
      else None)"

definition is_leap :: "nat \<Rightarrow> bool" where
  "is_leap y = (y mod 4 = 0 \<and> (y mod 100 \<noteq> 0 \<or> y mod 400 = 0))"

definition days_in_month :: "nat \<Rightarrow> nat \<Rightarrow> nat" where
  "days_in_month y m =
     (if m = 2 then (if is_leap y then 29 else 28)
      else if m \<in> set [4, 6, 9, 11] then 30 else 31)"

text \<open>
  \<^verbatim>\<open>parse_date\<close> is \<^verbatim>\<open>datetime.strptime(date_str, "%Y-%m-%d")\<close>; \<open>None\<close> stands
  for the \<^verbatim>\<open>ValueError\<close> it raises. The library reads four digits for the year, then a
  month 1..12 and a day 1..31 written with one or two digits (the day also as a space and
  a digit), wants the whole string consumed, and rejects year 0 and a day the month does
  not have. Only ASCII digits are modelled.
\<close>

definition day_field :: "string \<Rightarrow> nat option" where
  "day_field cs =
     (case cs of
        [sp, c] \<Rightarrow> (if sp = CHR '' '' \<and> is_digit c then Some (digit_val c) else digit_field cs)
      | _ \<Rightarrow> digit_field cs)"

definition parse_date :: "string \<Rightarrow> (nat \<times> nat \<times> nat) option" where
  "parse_date date_str =
     (case split_at CHR ''-'' date_str of
        None \<Rightarrow> None
      | Some (ys, rest) \<Rightarrow>
          (case split_at CHR ''-'' rest of
             None \<Rightarrow> None
           | Some (ms, ds) \<Rightarrow>
               (case (digit_field ms, day_field ds) of
                  (Some m, Some d) \<Rightarrow>
                    (if length ys = 4 \<and> list_all is_digit ys \<and> 1 \<le> number ys
                        \<and> 1 \<le> m \<and> m \<le> 12 \<and> 1 \<le> d \<and> d \<le> days_in_month (number ys) m
                     then Some (number ys, m, d) else None)
                | _ \<Rightarrow> None)))"

text \<open>
  \<^verbatim>\<open>parse_time\<close> is \<^verbatim>\<open>datetime.strptime(time_str, "%H:%M")\<close>: an hour 0..23 and a
  minute 0..59, each written with one or two digits.
\<close>

definition parse_time :: "string \<Rightarrow> (nat \<times> nat) option" where
  "parse_time time_str =
     (case split_at CHR '':'' time_str of
        None \<Rightarrow> None
      | Some (hs, ms) \<Rightarrow>
          (case (digit_field hs, digit_field ms) of
             (Some h, Some m) \<Rightarrow> (if h \<le> 23 \<and> m \<le> 59 then Some (h, m) else None)
           | _ \<Rightarrow> None))"

definition combine_date_time :: "string \<Rightarrow> string \<Rightarrow> datetime option" where
  "combine_date_time date_str time_str =
     (case parse_date date_str of
        None \<Rightarrow> None
      | Some (y, m, d) \<Rightarrow>
          (case parse_time time_str of
             None \<Rightarrow> None
           | Some (h, mi) \<Rightarrow>
               Some \<lparr>dt_year = y, dt_month = m, dt_day = d, dt_hour = h, dt_minute = mi,
                     dt_second = 0, dt_microsecond = 0\<rparr>))"

text \<open>\<^verbatim>\<open>is_future_datetime\<close>: \<open>None\<close> when one of the two parses raises.\<close>

definition is_future_datetime :: "datetime \<Rightarrow> string \<Rightarrow> string \<Rightarrow> bool option" where
  "is_future_datetime now date_str time_str =
     (case combine_date_time date_str time_str of
        None \<Rightarrow> None
      | Some booking_datetime \<Rightarrow> Some (dt_less now booking_datetime))"

definition validate_date_format :: "string \<Rightarrow> bool" where
  "validate_date_format date_str = (parse_date date_str \<noteq> None)"

text \<open>
  \<^verbatim>\<open>validate_time_slot\<close> matches \<^verbatim>\<open>^([01]?[0-9]|2[0-3]):[0-5][0-9]$\<close> with
  \<^verbatim>\<open>re.match\<close>. In Python \<^verbatim>\<open>$\<close> matches at the end of the string and also just
  before a newline that ends the string, which \<open>chomp\<close> takes off.
\<close>

definition chomp :: "string \<Rightarrow> string" where
  "chomp s = (if s \<noteq> [] \<and> last s = CHR 0x0A then butlast s else s)"

definition validate_time_slot :: "string \<Rightarrow> bool" where
  "validate_time_slot time_str =
     (case chomp time_str of
        [h, c, m1, m2] \<Rightarrow>
          is_digit h \<and> c = CHR '':'' \<and> m1 \<in> set ''012345'' \<and> is_digit m2
      | [h1, h2, c, m1, m2] \<Rightarrow>
          ((h1 \<in> set ''01'' \<and> is_digit h2) \<or> (h1 = CHR ''2'' \<and> h2 \<in> set ''0123''))
          \<and> c = CHR '':'' \<and> m1 \<in> set ''012345'' \<and> is_digit m2
      | _ \<Rightarrow> False)"

text \<open>\<^verbatim>\<open>strftime("%Y-%m-%d")\<close> and \<^verbatim>\<open>strftime("%H:%M")\<close> of the clock, zero padded.\<close>

definition digit_char :: "nat \<Rightarrow> char" where
  "digit_char n = ''0123456789'' ! (n mod 10)"

definition zero_pad2 :: "nat \<Rightarrow> string" where
  "zero_pad2 n = [digit_char (n div 10), digit_char n]"

definition zero_pad4 :: "nat \<Rightarrow> string" where
  "zero_pad4 n = [digit_char (n div 1000), digit_char (n div 100), digit_char (n div 10),
                  digit_char n]"

definition strftime_date :: "datetime \<Rightarrow> string" where
  "strftime_date t = zero_pad4 (dt_year t) @ ''-'' @ zero_pad2 (dt_month t) @ ''-''
                     @ zero_pad2 (dt_day t)"

definition strftime_time :: "datetime \<Rightarrow> string" where
  "strftime_time t = zero_pad2 (dt_hour t) @ '':'' @ zero_pad2 (dt_minute t)"

subsection \<open>Required fields\<close>

text \<open>
  \<^verbatim>\<open>validate_required_fields\<close> lists the fields that are absent, \<^verbatim>\<open>None\<close> or the
  empty string. A JSON string field of a request is a \<open>string option\<close> (\<open>None\<close>: absent
  or null), a number field a \<open>rat option\<close>; request bodies are taken to be well typed.
\<close>

definition present :: "string option \<Rightarrow> bool" where
  "present v = (v \<noteq> None \<and> v \<noteq> Some [])"

definition validate_required_fields :: "(string \<times> bool) list \<Rightarrow> bool \<times> string list" where
  "validate_required_fields required =
     (let missing = map fst (filter (\<lambda>f. \<not> snd f) required) in (length missing = 0, missing))"

fun join :: "string \<Rightarrow> string list \<Rightarrow> string" where
  "join sep [] = []"
| "join sep [x] = x"
| "join sep (x # y # ys) = x @ sep @ join sep (y # ys)"

section \<open>The document store and the responses of \<^verbatim>\<open>app.py\<close>\<close>

text \<open>
  An \<^verbatim>\<open>ObjectId\<close> is written as 24 hexadecimal digits; \<^verbatim>\<open>ObjectId(s)\<close> raises on
  any other string (\<open>None\<close>) and \<^verbatim>\<open>str\<close> of an id gives the lower-case digits, so an
  id is kept as that lower-case string.
\<close>

type_synonym oid = string

definition is_hex :: "char \<Rightarrow> bool" where
  "is_hex c = (c \<in> set ''0123456789abcdefABCDEF'')"

definition hex_lower :: "char \<Rightarrow> char" where
  "hex_lower c = (case map_of (zip ''ABCDEF'' ''abcdef'') c of Some l \<Rightarrow> l | None \<Rightarrow> c)"

definition ObjectId :: "string \<Rightarrow> oid option" where
  "ObjectId s = (if length s = 24 \<and> list_all is_hex s then Some (map hex_lower s) else None)"

text \<open>
  The documents, with the fields the handlers below read or write (the timestamps
  \<^verbatim>\<open>created_at\<close> and \<^verbatim>\<open>updated_at\<close> are left out). A field \<^verbatim>\<open>x\<close> of the
  source is the field \<open>p_x\<close> here, \<open>p\<close> naming the collection.
\<close>

record user_doc =
  u_id :: oid
  u_name :: string
  u_email :: string

record service_doc =
  sv_id :: oid
  sv_title :: string
  sv_base_price :: rat
  sv_status :: string

record discount_doc =
  d_id :: oid
  d_service_id :: string
  d_discount_type :: string
  d_discount_value :: rat
  d_start_date :: string
  d_end_date :: string
  d_is_active :: bool

record booking_doc =
  b_id :: oid
  b_customer_id :: string
  b_customer_name :: string
  b_customer_email :: string
  b_service_id :: string
  b_service_title :: string
  b_date :: string
  b_time_slot :: string
  b_base_price :: rat
  b_final_price :: rat
  b_discount_applied :: bool
  b_status :: string
  b_notes :: string

record staff_doc =
  st_id :: oid
  st_full_name :: string
  st_is_deleted :: bool

record attendance_doc =
  a_id :: oid
  a_staff_id :: string
  a_staff_name :: string
  a_date :: string
  a_check_in_time :: string
  a_check_out_time :: "string option"
  a_attendance_status :: string

text \<open>A collection is the list of its documents in insertion order.\<close>

record store =
  users :: "user_doc list"
  services :: "service_doc list"
  discounts :: "discount_doc list"
  bookings :: "booking_doc list"
  staff :: "staff_doc list"
  attendance :: "attendance_doc list"

text \<open>
  A handler returns \<^verbatim>\<open>jsonify({'error': msg}), code\<close> or a success body with its code;
  an exception no handler catches is answered by Flask with status 500.
\<close>

datatype 'a response = Error nat string | Success nat 'a

definition uncaught_exception :: "'a response" where
  "uncaught_exception = Error 500 ''Internal Server Error''"

text \<open>\<^verbatim>\<open>update_one({'_id': i}, {'$set': ...})\<close> changes the first document that matches.\<close>

fun update_one :: "('a \<Rightarrow> bool) \<Rightarrow> ('a \<Rightarrow> 'a) \<Rightarrow> 'a list \<Rightarrow> 'a list" where
  "update_one P f [] = []"
| "update_one P f (x # xs) = (if P x then f x # xs else x # update_one P f xs)"

text \<open>
  The unique indexes created at start-up: \<^verbatim>\<open>(service_id, date, time_slot)\<close> on bookings
  and \<^verbatim>\<open>(staff_id, date)\<close> on attendance, beside the store's own on \<^verbatim>\<open>_id\<close>.
  \<^verbatim>\<open>insert_one\<close> raises \<^verbatim>\<open>DuplicateKeyError\<close> (\<open>None\<close>) when a key is taken.
\<close>

definition slot_key :: "booking_doc \<Rightarrow> string \<times> string \<times> string" where
  "slot_key b = (b_service_id b, b_date b, b_time_slot b)"

definition insert_booking :: "booking_doc \<Rightarrow> booking_doc list \<Rightarrow> booking_doc list option" where
  "insert_booking b bs =
     (if b_id b \<in> set (map b_id bs) \<or> slot_key b \<in> set (map slot_key bs) then None
      else Some (bs @ [b]))"

definition day_key :: "attendance_doc \<Rightarrow> string \<times> string" where
  "day_key a = (a_staff_id a, a_date a)"

definition insert_attendance ::
  "attendance_doc \<Rightarrow> attendance_doc list \<Rightarrow> attendance_doc list option" where
  "insert_attendance a as =
     (if a_id a \<in> set (map a_id as) \<or> day_key a \<in> set (map day_key as) then None
      else Some (as @ [a]))"

definition insert_discount :: "discount_doc \<Rightarrow> discount_doc list \<Rightarrow> discount_doc list option" where
  "insert_discount d ds = (if d_id d \<in> set (map d_id ds) then None else Some (ds @ [d]))"

subsection \<open>Pricing\<close>

definition get_active_discount :: "datetime \<Rightarrow> string \<Rightarrow> store \<Rightarrow> discount_doc option" where
  "get_active_discount now service_id s =
     (let today = strftime_date now
      in find (\<lambda>d. d_service_id d = service_id \<and> d_is_active d = True
                    \<and> d_start_date d \<le> today \<and> today \<le> d_end_date d) (discounts s))"

definition calculate_booking_price :: "datetime \<Rightarrow> service_doc \<Rightarrow> store \<Rightarrow> rat \<times> bool" where
  "calculate_booking_price now service s =
     (let base_price = sv_base_price service;
          service_id = sv_id service
      in case get_active_discount now service_id s of
           Some discount \<Rightarrow>
             (calculate_discounted_price base_price (d_discount_type discount)
                (d_discount_value discount), True)
         | None \<Rightarrow> (base_price, False))"

subsection \<open>Bookings\<close>

record booking_request =
  rq_service_id :: "string option"
  rq_date :: "string option"
  rq_time_slot :: "string option"
  rq_notes :: "string option"

text \<open>
  \<^verbatim>\<open>create_booking\<close>: \<open>new_id\<close> is the id the driver gives the inserted document,
  \<open>customer_id\<close> the identity of the token.
\<close>

definition create_booking ::
  "datetime \<Rightarrow> oid \<Rightarrow> string \<Rightarrow> booking_request \<Rightarrow> store \<Rightarrow> booking_doc response \<times> store" where
  "create_booking now new_id customer_id data s =
     (case validate_required_fields
             [(''service_id'', present (rq_service_id data)), (''date'', present (rq_date data)),
              (''time_slot'', present (rq_time_slot data))] of
        (False, missing) \<Rightarrow>
          (Error 400 (''Missing required fields: '' @ join '', '' missing), s)
      | (True, _) \<Rightarrow>
     (case (rq_service_id data, rq_date data, rq_time_slot data) of
        (Some service_id, Some date, Some time_slot) \<Rightarrow>
          if \<not> validate_date_format date
          then (Error 400 ''Invalid date format. Use YYYY-MM-DD'', s)
          else if \<not> validate_time_slot time_slot
          then (Error 400 ''Invalid time slot format. Use HH:MM'', s)
          else
     (case is_future_datetime now date time_slot of
        None \<Rightarrow> (uncaught_exception, s)
      | Some False \<Rightarrow> (Error 400 ''Booking must be for a future date and time'', s)
      | Some True \<Rightarrow>
     (case ObjectId service_id of
        None \<Rightarrow> (Error 400 ''Invalid service ID'', s)
      | Some service_oid \<Rightarrow>
     (case find (\<lambda>sv. sv_id sv = service_oid) (services s) of
        None \<Rightarrow> (Error 404 ''Service not found'', s)
      | Some service \<Rightarrow>
          if sv_status service \<noteq> ''Active'' then (Error 400 ''Service is not available'', s)
          else
     (case find (\<lambda>b. b_service_id b = service_id \<and> b_date b = date
                      \<and> b_time_slot b = time_slot \<and> b_status b \<notin> set [''Cancelled''])
             (bookings s) of
        Some existing_booking \<Rightarrow> (Error 409 ''This time slot is already booked'', s)
      | None \<Rightarrow>
     (case ObjectId customer_id of
        None \<Rightarrow> (uncaught_exception, s)
      | Some customer_oid \<Rightarrow>
     (case find (\<lambda>u. u_id u = customer_oid) (users s) of
        None \<Rightarrow> (uncaught_exception, s)
      | Some customer \<Rightarrow>
          (case calculate_booking_price now service s of
             (final_price, discount_applied) \<Rightarrow>
               (let booking =
                      \<lparr>b_id = new_id, b_customer_id = customer_id,
                       b_customer_name = u_name customer, b_customer_email = u_email customer,
                       b_service_id = service_id, b_service_title = sv_title service,
                       b_date = date, b_time_slot = time_slot,
                       b_base_price = sv_base_price service, b_final_price = final_price,
                       b_discount_applied = discount_applied, b_status = ''Pending'',
                       b_notes = (case rq_notes data of None \<Rightarrow> [] | Some n \<Rightarrow> n)\<rparr>
                in case insert_booking booking (bookings s) of
                     Some bs \<Rightarrow> (Success 201 booking, s\<lparr>bookings := bs\<rparr>)
                   | None \<Rightarrow> (Error 409 ''This time slot is already booked'', s)))))))))
      | _ \<Rightarrow> (uncaught_exception, s)))"

text \<open>
  \<^verbatim>\<open>cancel_booking\<close>. The message of the third refusal lower-cases the status, which
  is one of the two strings tested.
\<close>

definition cancel_booking ::
  "datetime \<Rightarrow> string \<Rightarrow> string \<Rightarrow> store \<Rightarrow> string response \<times> store" where
  "cancel_booking now customer_id booking_id s =
     (case ObjectId booking_id of
        None \<Rightarrow> (Error 400 ''Invalid booking ID'', s)
      | Some booking_oid \<Rightarrow>
     (case find (\<lambda>b. b_id b = booking_oid) (bookings s) of
        None \<Rightarrow> (Error 404 ''Booking not found'', s)
      | Some booking \<Rightarrow>
          if b_customer_id booking \<noteq> customer_id
          then (Error 403 ''Unauthorized to cancel this booking'', s)
          else if b_status booking \<in> set [''Cancelled'', ''Completed'']
          then (Error 400 (''Cannot cancel a ''
                  @ (if b_status booking = ''Cancelled'' then ''cancelled'' else ''completed'')
                  @ '' booking''), s)
          else
            (case is_future_datetime now (b_date booking) (b_time_slot booking) of
               None \<Rightarrow> (uncaught_exception, s)
             | Some False \<Rightarrow> (Error 400 ''Cannot cancel past bookings'', s)
             | Some True \<Rightarrow>
                 (Success 200 ''Booking cancelled successfully'',
                  s\<lparr>bookings := update_one (\<lambda>b. b_id b = booking_oid)
                                   (\<lambda>b. b\<lparr>b_status := ''Cancelled''\<rparr>) (bookings s)\<rparr>))))"

text \<open>\<^verbatim>\<open>update_booking_status\<close> (admin); the body carries the optional field \<^verbatim>\<open>status\<close>.\<close>

definition valid_statuses :: "string list" where
  "valid_statuses = [''Pending'', ''Confirmed'', ''Completed'', ''Cancelled'']"

definition update_booking_status ::
  "string \<Rightarrow> string option \<Rightarrow> store \<Rightarrow> (string \<times> string) response \<times> store" where
  "update_booking_status booking_id data_status s =
     (case data_status of
        None \<Rightarrow> (Error 400 ''Status is required'', s)
      | Some new_status \<Rightarrow>
          if new_status \<notin> set valid_statuses
          then (Error 400 (''Invalid status. Must be one of: '' @ join '', '' valid_statuses), s)
          else
     (case ObjectId booking_id of
        None \<Rightarrow> (Error 400 ''Invalid booking ID'', s)
      | Some booking_oid \<Rightarrow>
     (case find (\<lambda>b. b_id b = booking_oid) (bookings s) of
        None \<Rightarrow> (Error 404 ''Booking not found'', s)
      | Some booking \<Rightarrow>
          (let old_status = b_status booking
           in (Success 200 (old_status, new_status),
               s\<lparr>bookings := update_one (\<lambda>b. b_id b = booking_oid)
                                (\<lambda>b. b\<lparr>b_status := new_status\<rparr>) (bookings s)\<rparr>)))))"

subsection \<open>Discounts\<close>

record discount_request =
  dq_service_id :: "string option"
  dq_discount_type :: "string option"
  dq_discount_value :: "rat option"
  dq_start_date :: "string option"
  dq_end_date :: "string option"

definition create_discount ::
  "oid \<Rightarrow> discount_request \<Rightarrow> store \<Rightarrow> discount_doc response \<times> store" where
  "create_discount new_id data s =
     (case validate_required_fields
             [(''service_id'', present (dq_service_id data)),
              (''discount_type'', present (dq_discount_type data)),
              (''discount_value'', dq_discount_value data \<noteq> None),
              (''start_date'', present (dq_start_date data)),
              (''end_date'', present (dq_end_date data))] of
        (False, missing) \<Rightarrow>
          (Error 400 (''Missing required fields: '' @ join '', '' missing), s)
      | (True, _) \<Rightarrow>
     (case (dq_service_id data, dq_discount_type data, dq_discount_value data,
            dq_start_date data, dq_end_date data) of
        (Some service_id, Some discount_type, Some discount_value, Some start_date,
         Some end_date) \<Rightarrow>
     (case ObjectId service_id of
        None \<Rightarrow> (Error 400 ''Invalid service ID'', s)
      | Some service_oid \<Rightarrow>
     (case find (\<lambda>sv. sv_id sv = service_oid) (services s) of
        None \<Rightarrow> (Error 404 ''Service not found'', s)
      | Some service \<Rightarrow>
          if discount_type \<notin> set [''percentage'', ''flat'']
          then (Error 400 ''Discount type must be \"percentage\" or \"flat\"'', s)
          else if discount_value \<le> 0
          then (Error 400 ''Discount value must be greater than 0'', s)
          else if discount_type = ''percentage'' \<and> discount_value > 100
          then (Error 400 ''Percentage discount cannot exceed 100%'', s)
          else if \<not> validate_date_format start_date \<or> \<not> validate_date_format end_date
          then (Error 400 ''Invalid date format. Use YYYY-MM-DD'', s)
          else if start_date > end_date
          then (Error 400 ''Start date must be before end date'', s)
          else
     (case find (\<lambda>d. d_service_id d = service_id \<and> d_is_active d = True
                      \<and> d_start_date d \<le> end_date \<and> d_end_date d \<ge> start_date)
             (discounts s) of
        Some existing_discount \<Rightarrow>
          (Error 409 ''An active discount already exists for this service in the specified date range'', s)
      | None \<Rightarrow>
          (let discount =
                 \<lparr>d_id = new_id, d_service_id = service_id, d_discount_type = discount_type,
                  d_discount_value = discount_value, d_start_date = start_date,
                  d_end_date = end_date, d_is_active = True\<rparr>
           in case insert_discount discount (discounts s) of
                Some ds \<Rightarrow> (Success 201 discount, s\<lparr>discounts := ds\<rparr>)
              | None \<Rightarrow> (uncaught_exception, s)))))
      | _ \<Rightarrow> (uncaught_exception, s)))"

text \<open>
  \<^verbatim>\<open>update_discount\<close>: every field of the body is optional (\<open>None\<close>: the key is
  absent); \<open>update_data\<close> holds the fields to \<^verbatim>\<open>$set\<close>.
\<close>

record discount_update =
  du_discount_type :: "string option"
  du_discount_value :: "rat option"
  du_start_date :: "string option"
  du_end_date :: "string option"
  du_is_active :: "bool option"

definition or_else :: "'a option \<Rightarrow> 'a \<Rightarrow> 'a" where
  "or_else v dflt = (case v of Some x \<Rightarrow> x | None \<Rightarrow> dflt)"

definition set_discount_fields :: "discount_update \<Rightarrow> discount_doc \<Rightarrow> discount_doc" where
  "set_discount_fields update_data d =
     d\<lparr>d_discount_type := or_else (du_discount_type update_data) (d_discount_type d),
       d_discount_value := or_else (du_discount_value update_data) (d_discount_value d),
       d_start_date := or_else (du_start_date update_data) (d_start_date d),
       d_end_date := or_else (du_end_date update_data) (d_end_date d),
       d_is_active := or_else (du_is_active update_data) (d_is_active d)\<rparr>"

definition update_discount ::
  "string \<Rightarrow> discount_update \<Rightarrow> store \<Rightarrow> discount_doc option response \<times> store" where
  "update_discount discount_id data s =
     (case ObjectId discount_id of
        None \<Rightarrow> (Error 400 ''Invalid discount ID'', s)
      | Some discount_oid \<Rightarrow>
     (case find (\<lambda>d. d_id d = discount_oid) (discounts s) of
        None \<Rightarrow> (Error 404 ''Discount not found'', s)
      | Some discount \<Rightarrow>
          if (case du_discount_type data of
                Some t \<Rightarrow> t \<notin> set [''percentage'', ''flat''] | None \<Rightarrow> False)
          then (Error 400 ''Discount type must be \"percentage\" or \"flat\"'', s)
          else if (case du_discount_value data of Some v \<Rightarrow> v \<le> 0 | None \<Rightarrow> False)
          then (Error 400 ''Discount value must be greater than 0'', s)
          else if (case du_discount_value data of
                     Some v \<Rightarrow>
                       (let discount_type =
                              or_else (du_discount_type data) (d_discount_type discount)
                        in discount_type = ''percentage'' \<and> v > 100)
                   | None \<Rightarrow> False)
          then (Error 400 ''Percentage discount cannot exceed 100%'', s)
          else if (case du_start_date data of
                     Some d \<Rightarrow> \<not> validate_date_format d | None \<Rightarrow> False)
          then (Error 400 ''Invalid start date format. Use YYYY-MM-DD'', s)
          else if (case du_end_date data of
                     Some d \<Rightarrow> \<not> validate_date_format d | None \<Rightarrow> False)
          then (Error 400 ''Invalid end date format. Use YYYY-MM-DD'', s)
          else
            (let start_date = or_else (du_start_date data) (d_start_date discount);
                 end_date = or_else (du_end_date data) (d_end_date discount)
             in if start_date > end_date
                then (Error 400 ''Start date must be before end date'', s)
                else
                  (let ds = update_one (\<lambda>d. d_id d = discount_oid)
                              (set_discount_fields data) (discounts s)
                   in (Success 200 (find (\<lambda>d. d_id d = discount_oid) ds),
                       s\<lparr>discounts := ds\<rparr>)))))"

definition delete_discount :: "string \<Rightarrow> store \<Rightarrow> string response \<times> store" where
  "delete_discount discount_id s =
     (case ObjectId discount_id of
        None \<Rightarrow> (Error 400 ''Invalid discount ID'', s)
      | Some discount_oid \<Rightarrow>
     (case find (\<lambda>d. d_id d = discount_oid) (discounts s) of
        None \<Rightarrow> (Error 404 ''Discount not found'', s)
      | Some discount \<Rightarrow>
          (Success 200 ''Discount disabled successfully'',
           s\<lparr>discounts := update_one (\<lambda>d. d_id d = discount_oid)
                             (\<lambda>d. d\<lparr>d_is_active := False\<rparr>) (discounts s)\<rparr>)))"

subsection \<open>Attendance\<close>

record checkin_request =
  ci_staff_id :: "string option"
  ci_date :: "string option"
  ci_check_in_time :: "string option"

text \<open>\<^verbatim>\<open>data.get(k) or default\<close>: the default also replaces an empty string.\<close>

definition get_or :: "string option \<Rightarrow> string \<Rightarrow> string" where
  "get_or v dflt = (case v of Some x \<Rightarrow> (if x = [] then dflt else x) | None \<Rightarrow> dflt)"

definition attendance_checkin ::
  "datetime \<Rightarrow> oid \<Rightarrow> checkin_request \<Rightarrow> store \<Rightarrow> attendance_doc response \<times> store" where
  "attendance_checkin now new_id data s =
     (case validate_required_fields
             [(''staff_id'', present (ci_staff_id data)), (''date'', present (ci_date data))] of
        (False, missing) \<Rightarrow>
          (Error 400 (''Missing required fields: '' @ join '', '' missing), s)
      | (True, _) \<Rightarrow>
     (case (ci_staff_id data, ci_date data) of
        (Some staff_id, Some date) \<Rightarrow>
          if \<not> validate_date_format date
          then (Error 400 ''Invalid date format. Use YYYY-MM-DD'', s)
          else
     (case ObjectId staff_id of
        None \<Rightarrow> (Error 400 ''Invalid staff ID'', s)
      | Some staff_oid \<Rightarrow>
     (case find (\<lambda>st. st_id st = staff_oid \<and> st_is_deleted st = False) (staff s) of
        None \<Rightarrow> (Error 404 ''Staff not found or inactive'', s)
      | Some staff_member \<Rightarrow>
     (case find (\<lambda>a. a_staff_id a = staff_id \<and> a_date a = date) (attendance s) of
        Some existing \<Rightarrow>
          (Error 409 ''Check-in already recorded for this staff on this date'', s)
      | None \<Rightarrow>
          (let check_in_time = get_or (ci_check_in_time data) (strftime_time now)
           in if \<not> validate_time_slot check_in_time
              then (Error 400 ''Invalid check_in_time format. Use HH:MM'', s)
              else
                (let attendance_record =
                       \<lparr>a_id = new_id, a_staff_id = staff_id,
                        a_staff_name = st_full_name staff_member, a_date = date,
                        a_check_in_time = check_in_time, a_check_out_time = None,
                        a_attendance_status = ''Present''\<rparr>
                 in case insert_attendance attendance_record (attendance s) of
                      Some as \<Rightarrow> (Success 201 attendance_record, s\<lparr>attendance := as\<rparr>)
                    | None \<Rightarrow> (uncaught_exception, s))))))
      | _ \<Rightarrow> (uncaught_exception, s)))"

record checkout_request =
  co_staff_id :: "string option"
  co_date :: "string option"
  co_check_out_time :: "string option"
  co_attendance_status :: "string option"

definition attendance_statuses :: "string list" where
  "attendance_statuses = [''Present'', ''Absent'', ''Half-day'']"

definition attendance_checkout ::
  "datetime \<Rightarrow> checkout_request \<Rightarrow> store \<Rightarrow> attendance_doc option response \<times> store" where
  "attendance_checkout now data s =
     (case validate_required_fields
             [(''staff_id'', present (co_staff_id data)), (''date'', present (co_date data))] of
        (False, missing) \<Rightarrow>
          (Error 400 (''Missing required fields: '' @ join '', '' missing), s)
      | (True, _) \<Rightarrow>
     (case (co_staff_id data, co_date data) of
        (Some staff_id, Some date) \<Rightarrow>
          if \<not> validate_date_format date
          then (Error 400 ''Invalid date format. Use YYYY-MM-DD'', s)
          else
     (case find (\<lambda>a. a_staff_id a = staff_id \<and> a_date a = date) (attendance s) of
        None \<Rightarrow> (Error 404 ''No check-in record found for this staff on this date'', s)
      | Some attendance_record \<Rightarrow>
          (let check_out_time = get_or (co_check_out_time data) (strftime_time now)
           in if \<not> validate_time_slot check_out_time
              then (Error 400 ''Invalid check_out_time format. Use HH:MM'', s)
              else
                (let attendance_status =
                       or_else (co_attendance_status data)
                         (a_attendance_status attendance_record)
                 in if attendance_status \<notin> set attendance_statuses
                    then (Error 400 ''attendance_status must be Present, Absent, or Half-day'', s)
                    else
                      (let as = update_one (\<lambda>a. a_id a = a_id attendance_record)
                                  (\<lambda>a. a\<lparr>a_check_out_time := Some check_out_time,
                                         a_attendance_status := attendance_status\<rparr>)
                                  (attendance s)
                       in (Success 200 (find (\<lambda>a. a_id a = a_id attendance_record) as),
                           s\<lparr>attendance := as\<rparr>)))))
      | _ \<Rightarrow> (uncaught_exception, s)))"

text \<open>
  \<^verbatim>\<open>update_attendance\<close>: \<^verbatim>\<open>check_out_time\<close> may be present and null
  (\<open>Some None\<close>).
\<close>

record attendance_update =
  au_check_in_time :: "string option"
  au_check_out_time :: "string option option"
  au_attendance_status :: "string option"

definition set_attendance_fields :: "attendance_update \<Rightarrow> attendance_doc \<Rightarrow> attendance_doc" where
  "set_attendance_fields update_data a =
     a\<lparr>a_check_in_time := or_else (au_check_in_time update_data) (a_check_in_time a),
       a_check_out_time := or_else (au_check_out_time update_data) (a_check_out_time a),
       a_attendance_status :=
         or_else (au_attendance_status update_data) (a_attendance_status a)\<rparr>"

definition update_attendance ::
  "string \<Rightarrow> attendance_update \<Rightarrow> store \<Rightarrow> attendance_doc option response \<times> store" where
  "update_attendance attendance_id data s =
     (case ObjectId attendance_id of
        None \<Rightarrow> (Error 400 ''Invalid attendance ID'', s)
      | Some attendance_oid \<Rightarrow>
     (case find (\<lambda>a. a_id a = attendance_oid) (attendance s) of
        None \<Rightarrow> (Error 404 ''Attendance record not found'', s)
      | Some attendance_record \<Rightarrow>
          if (case au_check_in_time data of
                Some t \<Rightarrow> \<not> validate_time_slot t | None \<Rightarrow> False)
          then (Error 400 ''Invalid check_in_time format. Use HH:MM'', s)
          else if (case au_check_out_time data of
                     Some (Some t) \<Rightarrow> \<not> validate_time_slot t | _ \<Rightarrow> False)
          then (Error 400 ''Invalid check_out_time format. Use HH:MM'', s)
          else if (case au_attendance_status data of
                     Some st \<Rightarrow> st \<notin> set attendance_statuses | None \<Rightarrow> False)
          then (Error 400 ''attendance_status must be Present, Absent, or Half-day'', s)
          else
            (let as = update_one (\<lambda>a. a_id a = attendance_oid)
                        (set_attendance_fields data) (attendance s)
             in (Success 200 (find (\<lambda>a. a_id a = attendance_oid) as),
                 s\<lparr>attendance := as\<rparr>))))"

subsection \<open>Reachable stores\<close>

text \<open>
  The bookings collection is written by \<^verbatim>\<open>create_booking\<close>, \<^verbatim>\<open>cancel_booking\<close>
  and \<^verbatim>\<open>update_booking_status\<close> only, the attendance collection by the three
  attendance handlers only. The other collections are written by handlers that touch
  neither (registration, service, staff and discount management): here they may change
  to anything between two requests, which covers every such write.
\<close>

definition empty_store :: store where
  "empty_store = \<lparr>users = [], services = [], discounts = [], bookings = [], staff = [],
                   attendance = []\<rparr>"

inductive reachable :: "store \<Rightarrow> bool" where
  reach_init: "reachable empty_store"
| reach_other:
    "reachable s \<Longrightarrow> reachable (s\<lparr>users := us, services := svs, discounts := ds, staff := sts\<rparr>)"
| reach_create_booking:
    "reachable s \<Longrightarrow> create_booking now new_id customer_id data s = (r, s') \<Longrightarrow> reachable s'"
| reach_cancel_booking:
    "reachable s \<Longrightarrow> cancel_booking now customer_id booking_id s = (r, s') \<Longrightarrow> reachable s'"
| reach_update_booking_status:
    "reachable s \<Longrightarrow> update_booking_status booking_id data_status s = (r, s') \<Longrightarrow> reachable s'"
| reach_checkin:
    "reachable s \<Longrightarrow> attendance_checkin now new_id cdata s = (r, s') \<Longrightarrow> reachable s'"
| reach_checkout:
    "reachable s \<Longrightarrow> attendance_checkout now odata s = (r, s') \<Longrightarrow> reachable s'"
| reach_update_attendance:
    "reachable s \<Longrightarrow> update_attendance attendance_id udata s = (r, s') \<Longrightarrow> reachable s'"

subsection \<open>Concrete stores\<close>

text \<open>
  A small salon on which the theorems below are exercised: one active service at base
  price 100 with a flat discount of 20 through January 2024, two customers, one staff
  member, and the clock at 08:00 on 1 January 2024.
\<close>

definition ex_now :: datetime where
  "ex_now = \<lparr>dt_year = 2024, dt_month = 1, dt_day = 1, dt_hour = 8, dt_minute = 0,
             dt_second = 0, dt_microsecond = 0\<rparr>"

definition ex_later :: datetime where
  "ex_later = \<lparr>dt_year = 2024, dt_month = 1, dt_day = 3, dt_hour = 0, dt_minute = 0,
               dt_second = 0, dt_microsecond = 0\<rparr>"

definition ex_service_id :: string where
  "ex_service_id = ''aaaaaaaaaaaaaaaaaaaaaaaa''"

definition ex_alice :: string where
  "ex_alice = ''0000000000000000000000a1''"

definition ex_bob :: string where
  "ex_bob = ''0000000000000000000000b2''"

definition ex_staff_id :: string where
  "ex_staff_id = ''0000000000000000000000e1''"

definition ex_booking_id :: string where
  "ex_booking_id = ''0000000000000000000000f1''"

definition ex_service :: service_doc where
  "ex_service = \<lparr>sv_id = ex_service_id, sv_title = ''Haircut'', sv_base_price = 100,
                 sv_status = ''Active''\<rparr>"

definition ex_january :: discount_doc where
  "ex_january = \<lparr>d_id = ''0000000000000000000000d1'', d_service_id = ex_service_id,
                 d_discount_type = ''flat'', d_discount_value = 20,
                 d_start_date = ''2024-01-01'', d_end_date = ''2024-01-31'',
                 d_is_active = True\<rparr>"

definition ex_february :: discount_doc where
  "ex_february = \<lparr>d_id = ''0000000000000000000000d2'', d_service_id = ex_service_id,
                  d_discount_type = ''percentage'', d_discount_value = 10,
                  d_start_date = ''2024-02-01'', d_end_date = ''2024-02-29'',
                  d_is_active = True\<rparr>"

definition ex_eve :: staff_doc where
  "ex_eve = \<lparr>st_id = ex_staff_id, st_full_name = ''Eve'', st_is_deleted = False\<rparr>"

definition ex_store :: store where
  "ex_store =
     \<lparr>users = [\<lparr>u_id = ex_alice, u_name = ''Alice'', u_email = ''alice@example.com''\<rparr>,
               \<lparr>u_id = ex_bob, u_name = ''Bob'', u_email = ''bob@example.com''\<rparr>],
      services = [ex_service],
      discounts = [ex_january],
      bookings = [],
      staff = [ex_eve],
      attendance = []\<rparr>"

definition ex_request :: booking_request where
  "ex_request = \<lparr>rq_service_id = Some ex_service_id, rq_date = Some ''2024-01-02'',
                 rq_time_slot = Some ''10:00'', rq_notes = None\<rparr>"

definition ex_booking :: booking_doc where
  "ex_booking =
     \<lparr>b_id = ex_booking_id, b_customer_id = ex_alice, b_customer_name = ''Alice'',
      b_customer_email = ''alice@example.com'', b_service_id = ex_service_id,
      b_service_title = ''Haircut'', b_date = ''2024-01-02'', b_time_slot = ''10:00'',
      b_base_price = 100, b_final_price = 80, b_discount_applied = True,
      b_status = ''Pending'', b_notes = []\<rparr>"

definition ex_booked :: store where
  "ex_booked = ex_store\<lparr>bookings := [ex_booking]\<rparr>"

definition ex_cancelled :: store where
  "ex_cancelled = ex_store\<lparr>bookings := [ex_booking\<lparr>b_status := ''Cancelled''\<rparr>]\<rparr>"

definition ex_completed :: store where
  "ex_completed = ex_store\<lparr>bookings := [ex_booking\<lparr>b_status := ''Completed''\<rparr>]\<rparr>"





definition ex_two_discounts :: store where
  "ex_two_discounts = ex_store\<lparr>discounts := [ex_january, ex_february]\<rparr>"



definition ex_nine :: booking_doc where
  "ex_nine = ex_booking\<lparr>b_time_slot := ''9:30''\<rparr>"

definition ex_nine_booked :: store where
  "ex_nine_booked = ex_store\<lparr>bookings := [ex_nine]\<rparr>"

definition ex_nine_request :: booking_request where
  "ex_nine_request = ex_request\<lparr>rq_time_slot := Some ''09:30''\<rparr>"

section \<open>Properties of the helpers\<close>

subsection \<open>Rounding\<close>





subsection \<open>The discounted price\<close>



section \<open>Properties of the store operations\<close>

subsection \<open>Lists as collections\<close>

lemma map_update_one: "(\<And>x. k (f x) = k x) \<Longrightarrow> map k (update_one P f xs) = map k xs"
  by (induction xs) auto

lemma set_update_one:
  "y \<in> set (update_one P f xs) \<Longrightarrow> y \<in> set xs \<or> (\<exists>x \<in> set xs. y = f x)"
  by (induction xs) (auto split: if_splits)

lemma find_update_one:
  "find P xs = Some x \<Longrightarrow> (\<And>y. P (f y) = P y) \<Longrightarrow> find P (update_one P f xs) = Some (f x)"
  by (induction xs) (auto split: if_splits)

lemma at_most_one_of_distinct:
  "distinct (map k xs) \<Longrightarrow> length (filter (\<lambda>x. k x = v \<and> P x) xs) \<le> 1"
proof (induction xs)
  case Nil
  then show ?case by simp
next
  case (Cons x xs)
  show ?case
  proof (cases "k x = v")
    case True
    with Cons.prems have "filter (\<lambda>x. k x = v \<and> P x) xs = []"
      by (force simp: filter_empty_conv image_iff)
    then show ?thesis by simp
  next
    case False
    with Cons show ?thesis by simp
  qed
qed

subsection \<open>What each handler does to the store\<close>

lemma create_booking_store:
  assumes "create_booking now new_id customer_id data s = (r, s')"
  shows "s' = s \<or> (\<exists>b. s' = s\<lparr>bookings := bookings s @ [b]\<rparr>
            \<and> slot_key b \<notin> set (map slot_key (bookings s))
            \<and> combine_date_time (b_date b) (b_time_slot b) \<noteq> None)"
  using assms
  unfolding create_booking_def insert_booking_def is_future_datetime_def Let_def
  by (auto split: option.splits if_splits prod.splits bool.splits)

lemma cancel_booking_store:
  assumes "cancel_booking now customer_id booking_id s = (r, s')"
  shows "s' = s \<or>
    (\<exists>P. s' = s\<lparr>bookings := update_one P (\<lambda>b. b\<lparr>b_status := ''Cancelled''\<rparr>) (bookings s)\<rparr>)"
  using assms unfolding cancel_booking_def
  by (auto split: option.splits if_splits bool.splits)

lemma update_booking_status_store:
  assumes "update_booking_status booking_id st s = (r, s')"
  shows "s' = s \<or>
    (\<exists>P n. s' = s\<lparr>bookings := update_one P (\<lambda>b. b\<lparr>b_status := n\<rparr>) (bookings s)\<rparr>)"
  using assms unfolding update_booking_status_def Let_def
  by (auto split: option.splits if_splits bool.splits)

lemma attendance_checkin_store:
  assumes "attendance_checkin now new_id data s = (r, s')"
  shows "s' = s \<or> (\<exists>a. s' = s\<lparr>attendance := attendance s @ [a]\<rparr>
            \<and> day_key a \<notin> set (map day_key (attendance s)))"
  using assms
  unfolding attendance_checkin_def insert_attendance_def Let_def
  by (auto split: option.splits if_splits prod.splits bool.splits)

lemma attendance_checkout_store:
  assumes "attendance_checkout now data s = (r, s')"
  shows "s' = s \<or> (\<exists>P f. s' = s\<lparr>attendance := update_one P f (attendance s)\<rparr>
            \<and> (\<forall>a. day_key (f a) = day_key a))"
proof -
  have key: "day_key (a\<lparr>a_check_out_time := x, a_attendance_status := y\<rparr>) = day_key a"
    for a x y
    by (simp add: day_key_def)
  show ?thesis
    using assms unfolding attendance_checkout_def Let_def
    by (auto split: option.splits if_splits prod.splits bool.splits intro: key)
qed

lemma update_attendance_store:
  assumes "update_attendance attendance_id data s = (r, s')"
  shows "s' = s \<or> (\<exists>P f. s' = s\<lparr>attendance := update_one P f (attendance s)\<rparr>
            \<and> (\<forall>a. day_key (f a) = day_key a))"
proof -
  have key: "\<forall>a. day_key (set_attendance_fields data a) = day_key a"
    by (simp add: day_key_def set_attendance_fields_def)
  show ?thesis
    using assms key unfolding update_attendance_def Let_def
    by (auto split: option.splits if_splits bool.splits)
qed

lemma status_update_keeps_bookings:
  assumes "distinct (map slot_key bs)"
    and "\<forall>b \<in> set bs. combine_date_time (b_date b) (b_time_slot b) \<noteq> None"
  shows "distinct (map slot_key (update_one P (\<lambda>b. b\<lparr>b_status := n\<rparr>) bs))
         \<and> (\<forall>b \<in> set (update_one P (\<lambda>b. b\<lparr>b_status := n\<rparr>) bs).
               combine_date_time (b_date b) (b_time_slot b) \<noteq> None)"
proof -
  have "map slot_key (update_one P (\<lambda>b. b\<lparr>b_status := n\<rparr>) bs) = map slot_key bs"
    by (rule map_update_one) (simp add: slot_key_def)
  moreover have "combine_date_time (b_date y) (b_time_slot y) \<noteq> None"
    if "y \<in> set (update_one P (\<lambda>b. b\<lparr>b_status := n\<rparr>) bs)" for y
    using set_update_one [OF that] assms(2) by auto
  ultimately show ?thesis using assms(1) by simp
qed

text \<open>
  In every reachable store no two bookings share their index key, every booking carries
  a date and a time slot that parse, and no two attendance records share their key.
\<close>

lemma reachable_invariant:
  assumes "reachable s"
  shows "distinct (map slot_key (bookings s))
         \<and> (\<forall>b \<in> set (bookings s). combine_date_time (b_date b) (b_time_slot b) \<noteq> None)
         \<and> distinct (map day_key (attendance s))"
  using assms
proof (induction rule: reachable.induct)
  case reach_init
  then show ?case by (simp add: empty_store_def)
next
  case (reach_other s us svs ds sts)
  then show ?case by simp
next
  case (reach_create_booking s now new_id customer_id data r s')
  from create_booking_store [OF reach_create_booking.hyps(2)] reach_create_booking.IH
  show ?case by auto
next
  case (reach_cancel_booking s now customer_id booking_id r s')
  from cancel_booking_store [OF reach_cancel_booking.hyps(2)] reach_cancel_booking.IH
    status_update_keeps_bookings [of "bookings s"]
  show ?case by auto
next
  case (reach_update_booking_status s booking_id data_status r s')
  from update_booking_status_store [OF reach_update_booking_status.hyps(2)]
    reach_update_booking_status.IH status_update_keeps_bookings [of "bookings s"]
  show ?case by auto
next
  case (reach_checkin s now new_id cdata r s')
  from attendance_checkin_store [OF reach_checkin.hyps(2)] reach_checkin.IH
  show ?case by auto
next
  case (reach_checkout s now odata r s')
  from attendance_checkout_store [OF reach_checkout.hyps(2)] reach_checkout.IH
  show ?case by (auto simp: map_update_one)
next
  case (reach_update_attendance s attendance_id udata r s')
  from update_attendance_store [OF reach_update_attendance.hyps(2)] reach_update_attendance.IH
  show ?case by (auto simp: map_update_one)
qed

subsection \<open>The concrete stores are reachable\<close>

lemma ex_create_booking:
  "create_booking ex_now ex_booking_id ex_alice ex_request ex_store
     = (Success 201 ex_booking, ex_booked)"
  by code_simp

lemma ex_cancel_booking:
  "cancel_booking ex_now ex_alice ex_booking_id ex_booked
     = (Success 200 ''Booking cancelled successfully'', ex_cancelled)"
  by code_simp

lemma ex_complete_booking:
  "update_booking_status ex_booking_id (Some ''Completed'') ex_booked
     = (Success 200 (''Pending'', ''Completed''), ex_completed)"
  by code_simp


lemma reachable_ex_store: "reachable ex_store"
proof -
  have "ex_store = empty_store\<lparr>users := users ex_store, services := services ex_store,
                     discounts := discounts ex_store, staff := staff ex_store\<rparr>"
    by (simp add: ex_store_def empty_store_def)
  then show ?thesis
    using reach_other [OF reach_init] by metis
qed

lemma reachable_ex_booked: "reachable ex_booked"
  using reach_create_booking [OF reachable_ex_store ex_create_booking] .

lemma reachable_ex_cancelled: "reachable ex_cancelled"
  using reach_cancel_booking [OF reachable_ex_booked ex_cancel_booking] .

lemma reachable_ex_completed: "reachable ex_completed"
  using reach_update_booking_status [OF reachable_ex_booked ex_complete_booking] .



subsection \<open>Creating a booking\<close>

lemma parse_date_nonempty: "parse_date [] = None"
  by (simp add: parse_date_def split_at_def)

lemma validate_date_format_nonempty: "validate_date_format d \<Longrightarrow> d \<noteq> []"
  by (auto simp: validate_date_format_def parse_date_nonempty)

lemma validate_time_slot_nonempty: "validate_time_slot t \<Longrightarrow> t \<noteq> []"
  by (auto simp: validate_time_slot_def chomp_def)

lemma ObjectId_nonempty: "ObjectId x = Some i \<Longrightarrow> x \<noteq> []"
  by (auto simp: ObjectId_def split: if_splits)

lemma is_future_valid_date: "is_future_datetime now d t = Some f \<Longrightarrow> validate_date_format d"
  by (auto simp: is_future_datetime_def combine_date_time_def validate_date_format_def
      split: option.splits)

text \<open>A request that passes every check before the slot query, and whose query finds a
  booking, is refused.\<close>

lemma create_booking_slot_found:
  assumes "rq_service_id data = Some sid" "rq_date data = Some d" "rq_time_slot data = Some t"
    and "validate_time_slot t" "is_future_datetime now d t = Some True"
    and "ObjectId sid = Some soid"
    and "find (\<lambda>sv. sv_id sv = soid) (services s) = Some service"
    and "sv_status service = ''Active''"
    and "find (\<lambda>b. b_service_id b = sid \<and> b_date b = d \<and> b_time_slot b = t
                  \<and> b_status b \<notin> set [''Cancelled'']) (bookings s) = Some existing"
  shows "create_booking now nid cid data s = (Error 409 ''This time slot is already booked'', s)"
  using assms validate_time_slot_nonempty [OF assms(4)] ObjectId_nonempty [OF assms(6)]
    is_future_valid_date [OF assms(5)]
    validate_date_format_nonempty [OF is_future_valid_date [OF assms(5)]]
  by (simp add: create_booking_def validate_required_fields_def present_def)

text \<open>When the query finds nothing and the customer is on file, the insert decides.\<close>

lemma create_booking_insert:
  assumes "rq_service_id data = Some sid" "rq_date data = Some d" "rq_time_slot data = Some t"
    and "validate_time_slot t" "is_future_datetime now d t = Some True"
    and "ObjectId sid = Some soid"
    and "find (\<lambda>sv. sv_id sv = soid) (services s) = Some service"
    and "sv_status service = ''Active''"
    and "find (\<lambda>b. b_service_id b = sid \<and> b_date b = d \<and> b_time_slot b = t
                  \<and> b_status b \<notin> set [''Cancelled'']) (bookings s) = None"
    and "ObjectId cid = Some coid"
    and "find (\<lambda>u. u_id u = coid) (users s) = Some customer"
  shows "create_booking now nid cid data s =
     (let booking = \<lparr>b_id = nid, b_customer_id = cid,
                       b_customer_name = u_name customer, b_customer_email = u_email customer,
                       b_service_id = sid, b_service_title = sv_title service,
                       b_date = d, b_time_slot = t,
                       b_base_price = sv_base_price service,
                       b_final_price = fst (calculate_booking_price now service s),
                       b_discount_applied = snd (calculate_booking_price now service s),
                       b_status = ''Pending'',
                       b_notes = (case rq_notes data of None \<Rightarrow> [] | Some n \<Rightarrow> n)\<rparr>
      in if nid \<in> set (map b_id (bookings s)) \<or> (sid, d, t) \<in> set (map slot_key (bookings s))
         then (Error 409 ''This time slot is already booked'', s)
         else (Success 201 booking, s\<lparr>bookings := bookings s @ [booking]\<rparr>))"
  using assms validate_time_slot_nonempty [OF assms(4)] ObjectId_nonempty [OF assms(6)]
    is_future_valid_date [OF assms(5)]
    validate_date_format_nonempty [OF is_future_valid_date [OF assms(5)]]
  by (simp add: create_booking_def validate_required_fields_def present_def insert_booking_def
      slot_key_def Let_def split: prod.splits)

text \<open>
  Claim C1. In every reachable store at most one booking whose status is not
  \<^verbatim>\<open>Cancelled\<close> exists for a key \<open>(service_id, date, time_slot)\<close>. A request to
  \<^verbatim>\<open>create_booking\<close> that passes the checks before the slot query (fields present,
  time slot well formed, date and slot in the future, service on file and active) is
  answered 409 \<^verbatim>\<open>This time slot is already booked\<close> (\<open>SlotTaken\<close>) with the store
  unchanged, both when the query before the insert finds a booking of the key that is
  not cancelled, and when the query finds none but the insert violates a unique index
  (the key is held by a cancelled booking, or the new id is taken): the two refusals are
  the same response.
\<close>

theorem slot_uniqueness:
  "(reachable s \<longrightarrow>
      length (filter (\<lambda>b. slot_key b = k \<and> b_status b \<noteq> ''Cancelled'') (bookings s)) \<le> 1)
   \<and> (rq_service_id data = Some sid \<and> rq_date data = Some d \<and> rq_time_slot data = Some t
       \<and> validate_time_slot t \<and> is_future_datetime now d t = Some True
       \<and> ObjectId sid = Some soid
       \<and> find (\<lambda>sv. sv_id sv = soid) (services s) = Some service
       \<and> sv_status service = ''Active''
       \<longrightarrow>
         (find (\<lambda>b. b_service_id b = sid \<and> b_date b = d \<and> b_time_slot b = t
                     \<and> b_status b \<notin> set [''Cancelled'']) (bookings s) \<noteq> None
          \<longrightarrow> create_booking now nid cid data s
                = (Error 409 ''This time slot is already booked'', s))
       \<and> (find (\<lambda>b. b_service_id b = sid \<and> b_date b = d \<and> b_time_slot b = t
                       \<and> b_status b \<notin> set [''Cancelled'']) (bookings s) = None
            \<and> ObjectId cid = Some coid
            \<and> find (\<lambda>u. u_id u = coid) (users s) = Some customer
            \<and> ((sid, d, t) \<in> set (map slot_key (bookings s))
                 \<or> nid \<in> set (map b_id (bookings s)))
          \<longrightarrow> create_booking now nid cid data s
                = (Error 409 ''This time slot is already booked'', s)))"
proof (intro conjI impI)
  assume "reachable s"
  then have "distinct (map slot_key (bookings s))"
    using reachable_invariant by blast
  then show "length (filter (\<lambda>b. slot_key b = k \<and> b_status b \<noteq> ''Cancelled'') (bookings s)) \<le> 1"
    by (rule at_most_one_of_distinct)
next
  assume ok: "rq_service_id data = Some sid \<and> rq_date data = Some d \<and> rq_time_slot data = Some t
       \<and> validate_time_slot t \<and> is_future_datetime now d t = Some True
       \<and> ObjectId sid = Some soid
       \<and> find (\<lambda>sv. sv_id sv = soid) (services s) = Some service
       \<and> sv_status service = ''Active''"
    and found: "find (\<lambda>b. b_service_id b = sid \<and> b_date b = d \<and> b_time_slot b = t
                     \<and> b_status b \<notin> set [''Cancelled'']) (bookings s) \<noteq> None"
  from found obtain existing where
    "find (\<lambda>b. b_service_id b = sid \<and> b_date b = d \<and> b_time_slot b = t
                     \<and> b_status b \<notin> set [''Cancelled'']) (bookings s) = Some existing"
    by blast
  with ok show "create_booking now nid cid data s
                = (Error 409 ''This time slot is already booked'', s)"
    using create_booking_slot_found [where data = data and sid = sid and d = d and t = t
        and now = now and soid = soid and s = s and service = service
        and existing = existing and nid = nid and cid = cid]
    by blast
next
  assume ok: "rq_service_id data = Some sid \<and> rq_date data = Some d \<and> rq_time_slot data = Some t
       \<and> validate_time_slot t \<and> is_future_datetime now d t = Some True
       \<and> ObjectId sid = Some soid
       \<and> find (\<lambda>sv. sv_id sv = soid) (services s) = Some service
       \<and> sv_status service = ''Active''"
    and dup: "find (\<lambda>b. b_service_id b = sid \<and> b_date b = d \<and> b_time_slot b = t
                       \<and> b_status b \<notin> set [''Cancelled'']) (bookings s) = None
            \<and> ObjectId cid = Some coid
            \<and> find (\<lambda>u. u_id u = coid) (users s) = Some customer
            \<and> ((sid, d, t) \<in> set (map slot_key (bookings s))
                 \<or> nid \<in> set (map b_id (bookings s)))"
  have "create_booking now nid cid data s =
     (let booking = \<lparr>b_id = nid, b_customer_id = cid,
                       b_customer_name = u_name customer, b_customer_email = u_email customer,
                       b_service_id = sid, b_service_title = sv_title service,
                       b_date = d, b_time_slot = t,
                       b_base_price = sv_base_price service,
                       b_final_price = fst (calculate_booking_price now service s),
                       b_discount_applied = snd (calculate_booking_price now service s),
                       b_status = ''Pending'',
                       b_notes = (case rq_notes data of None \<Rightarrow> [] | Some n \<Rightarrow> n)\<rparr>
      in if nid \<in> set (map b_id (bookings s)) \<or> (sid, d, t) \<in> set (map slot_key (bookings s))
         then (Error 409 ''This time slot is already booked'', s)
         else (Success 201 booking, s\<lparr>bookings := bookings s @ [booking]\<rparr>))"
    using ok dup
      create_booking_insert [where data = data and sid = sid and d = d and t = t
        and now = now and soid = soid and s = s and service = service
        and coid = coid and customer = customer and nid = nid and cid = cid]
    by blast
  with dup show "create_booking now nid cid data s
                = (Error 409 ''This time slot is already booked'', s)"
    by (auto simp: Let_def)
qed

theorem slot_uniqueness_witness:
  "reachable ex_booked \<and> reachable ex_cancelled
   \<and> length (filter (\<lambda>b. slot_key b = (ex_service_id, ''2024-01-02'', ''10:00'')
                          \<and> b_status b \<noteq> ''Cancelled'') (bookings ex_booked)) \<le> 1
   \<and> create_booking ex_now ''0000000000000000000000f2'' ex_bob ex_request ex_booked
       = (Error 409 ''This time slot is already booked'', ex_booked)
   \<and> create_booking ex_now ''0000000000000000000000f2'' ex_bob ex_request ex_cancelled
       = (Error 409 ''This time slot is already booked'', ex_cancelled)"
proof -
  have req: "rq_service_id ex_request = Some ex_service_id \<and> rq_date ex_request = Some ''2024-01-02''
      \<and> rq_time_slot ex_request = Some ''10:00'' \<and> validate_time_slot ''10:00''
      \<and> is_future_datetime ex_now ''2024-01-02'' ''10:00'' = Some True
      \<and> ObjectId ex_service_id = Some ex_service_id"
    by code_simp
  have svc1: "find (\<lambda>sv. sv_id sv = ex_service_id) (services ex_booked) = Some ex_service
      \<and> sv_status ex_service = ''Active''"
    by code_simp
  have svc2: "find (\<lambda>sv. sv_id sv = ex_service_id) (services ex_cancelled) = Some ex_service"
    by code_simp
  have q1: "find (\<lambda>b. b_service_id b = ex_service_id \<and> b_date b = ''2024-01-02''
                    \<and> b_time_slot b = ''10:00'' \<and> b_status b \<notin> set [''Cancelled''])
              (bookings ex_booked) \<noteq> None"
    by code_simp
  have q2: "find (\<lambda>b. b_service_id b = ex_service_id \<and> b_date b = ''2024-01-02''
                    \<and> b_time_slot b = ''10:00'' \<and> b_status b \<notin> set [''Cancelled''])
              (bookings ex_cancelled) = None
      \<and> ObjectId ex_bob = Some ex_bob
      \<and> find (\<lambda>u. u_id u = ex_bob) (users ex_cancelled)
          = Some \<lparr>u_id = ex_bob, u_name = ''Bob'', u_email = ''bob@example.com''\<rparr>
      \<and> (ex_service_id, ''2024-01-02'', ''10:00'') \<in> set (map slot_key (bookings ex_cancelled))"
    by code_simp
  show ?thesis
    using reachable_ex_booked reachable_ex_cancelled req svc1 svc2 q1 q2
      slot_uniqueness [where s = ex_booked and data = ex_request and now = ex_now
        and sid = ex_service_id and d = "''2024-01-02''" and t = "''10:00''"
        and soid = ex_service_id and service = ex_service
        and k = "(ex_service_id, ''2024-01-02'', ''10:00'')"
        and nid = "''0000000000000000000000f2''" and cid = ex_bob]
      slot_uniqueness [where s = ex_cancelled and data = ex_request and now = ex_now
        and sid = ex_service_id and d = "''2024-01-02''" and t = "''10:00''"
        and soid = ex_service_id and service = ex_service
        and nid = "''0000000000000000000000f2''" and cid = ex_bob and coid = ex_bob
        and customer = "\<lparr>u_id = ex_bob, u_name = ''Bob'', u_email = ''bob@example.com''\<rparr>"]
    by blast
qed

subsection \<open>Cancelling a booking\<close>

lemma find_Some_member: "find P xs = Some x \<Longrightarrow> x \<in> set xs \<and> P x"
  by (auto simp: find_Some_iff)

lemma find_update_one_id:
  assumes "find (\<lambda>b. b_id b = oid) bs = Some b"
  shows "find (\<lambda>x. b_id x = oid) (update_one (\<lambda>x. b_id x = oid) (\<lambda>x. x\<lparr>b_status := n\<rparr>) bs)
         = Some (b\<lparr>b_status := n\<rparr>)"
  using assms by (intro find_update_one) simp_all

text \<open>
  Claim C3. For a customer and a well-formed booking id, on a reachable store,
  \<^verbatim>\<open>cancel_booking\<close> answers 404 (\<open>NotFound\<close>) when no booking has the id; otherwise
  403 (\<open>Forbidden\<close>) when the booking's \<^verbatim>\<open>customer_id\<close> is not the requester;
  otherwise 400 \<^verbatim>\<open>Cannot cancel a cancelled/completed booking\<close> (\<open>InvalidTransition\<close>)
  when the status is \<^verbatim>\<open>Cancelled\<close> or \<^verbatim>\<open>Completed\<close>; otherwise 400
  \<^verbatim>\<open>Cannot cancel past bookings\<close> (\<open>PastBooking\<close>) when the instant of the booking's
  date and time slot is not strictly after the clock; otherwise it succeeds and the
  booking's status is \<^verbatim>\<open>Cancelled\<close>. Every refusal returns the store unchanged.
\<close>

theorem cancel_booking_chain:
  assumes "reachable s" and "ObjectId booking_id = Some oid"
  shows
  "(find (\<lambda>b. b_id b = oid) (bookings s) = None
      \<longrightarrow> cancel_booking now cid booking_id s = (Error 404 ''Booking not found'', s))
   \<and> (\<forall>b. find (\<lambda>b. b_id b = oid) (bookings s) = Some b \<longrightarrow>
        (b_customer_id b \<noteq> cid
           \<longrightarrow> cancel_booking now cid booking_id s
               = (Error 403 ''Unauthorized to cancel this booking'', s))
      \<and> (b_customer_id b = cid \<and> b_status b = ''Cancelled''
           \<longrightarrow> cancel_booking now cid booking_id s
               = (Error 400 ''Cannot cancel a cancelled booking'', s))
      \<and> (b_customer_id b = cid \<and> b_status b = ''Completed''
           \<longrightarrow> cancel_booking now cid booking_id s
               = (Error 400 ''Cannot cancel a completed booking'', s))
      \<and> (b_customer_id b = cid \<and> b_status b \<noteq> ''Cancelled'' \<and> b_status b \<noteq> ''Completed''
           \<longrightarrow> (\<exists>instant. combine_date_time (b_date b) (b_time_slot b) = Some instant
                 \<and> (\<not> dt_less now instant
                      \<longrightarrow> cancel_booking now cid booking_id s
                          = (Error 400 ''Cannot cancel past bookings'', s))
                 \<and> (dt_less now instant
                      \<longrightarrow> cancel_booking now cid booking_id s
                          = (Success 200 ''Booking cancelled successfully'',
                             s\<lparr>bookings := update_one (\<lambda>x. b_id x = oid)
                                  (\<lambda>x. x\<lparr>b_status := ''Cancelled''\<rparr>) (bookings s)\<rparr>)
                        \<and> find (\<lambda>x. b_id x = oid)
                              (bookings (snd (cancel_booking now cid booking_id s)))
                            = Some (b\<lparr>b_status := ''Cancelled''\<rparr>)))))"
proof (intro conjI allI impI)
  assume "find (\<lambda>b. b_id b = oid) (bookings s) = None"
  with assms(2) show "cancel_booking now cid booking_id s = (Error 404 ''Booking not found'', s)"
    by (simp add: cancel_booking_def)
next
  fix b
  assume "find (\<lambda>b. b_id b = oid) (bookings s) = Some b" "b_customer_id b \<noteq> cid"
  with assms(2) show "cancel_booking now cid booking_id s
      = (Error 403 ''Unauthorized to cancel this booking'', s)"
    by (simp add: cancel_booking_def)
next
  fix b
  assume "find (\<lambda>b. b_id b = oid) (bookings s) = Some b"
    "b_customer_id b = cid \<and> b_status b = ''Cancelled''"
  with assms(2) show "cancel_booking now cid booking_id s
      = (Error 400 ''Cannot cancel a cancelled booking'', s)"
    by (simp add: cancel_booking_def)
next
  fix b
  assume "find (\<lambda>b. b_id b = oid) (bookings s) = Some b"
    "b_customer_id b = cid \<and> b_status b = ''Completed''"
  with assms(2) show "cancel_booking now cid booking_id s
      = (Error 400 ''Cannot cancel a completed booking'', s)"
    by (simp add: cancel_booking_def)
next
  fix b
  assume found: "find (\<lambda>b. b_id b = oid) (bookings s) = Some b"
    and live: "b_customer_id b = cid \<and> b_status b \<noteq> ''Cancelled'' \<and> b_status b \<noteq> ''Completed''"
  from found have "b \<in> set (bookings s)"
    by (simp add: find_Some_member)
  with assms(1) obtain instant where
    instant: "combine_date_time (b_date b) (b_time_slot b) = Some instant"
    using reachable_invariant by blast
  have past: "cancel_booking now cid booking_id s = (Error 400 ''Cannot cancel past bookings'', s)"
    if "\<not> dt_less now instant"
    using that assms(2) found live instant
    by (simp add: cancel_booking_def is_future_datetime_def)
  have succeeds: "cancel_booking now cid booking_id s
      = (Success 200 ''Booking cancelled successfully'',
         s\<lparr>bookings := update_one (\<lambda>x. b_id x = oid)
              (\<lambda>x. x\<lparr>b_status := ''Cancelled''\<rparr>) (bookings s)\<rparr>)"
    if "dt_less now instant"
    using that assms(2) found live instant
    by (simp add: cancel_booking_def is_future_datetime_def)
  have after: "find (\<lambda>x. b_id x = oid) (bookings (snd (cancel_booking now cid booking_id s)))
      = Some (b\<lparr>b_status := ''Cancelled''\<rparr>)"
    if "dt_less now instant"
    using succeeds [OF that] find_update_one_id [OF found] by simp
  show "\<exists>instant. combine_date_time (b_date b) (b_time_slot b) = Some instant
      \<and> (\<not> dt_less now instant
           \<longrightarrow> cancel_booking now cid booking_id s
               = (Error 400 ''Cannot cancel past bookings'', s))
      \<and> (dt_less now instant
           \<longrightarrow> cancel_booking now cid booking_id s
               = (Success 200 ''Booking cancelled successfully'',
                  s\<lparr>bookings := update_one (\<lambda>x. b_id x = oid)
                       (\<lambda>x. x\<lparr>b_status := ''Cancelled''\<rparr>) (bookings s)\<rparr>)
             \<and> find (\<lambda>x. b_id x = oid)
                   (bookings (snd (cancel_booking now cid booking_id s)))
                 = Some (b\<lparr>b_status := ''Cancelled''\<rparr>))"
    using instant past succeeds after by blast
qed

theorem cancel_booking_chain_witness:
  "cancel_booking ex_now ex_bob ex_booking_id ex_booked
     = (Error 403 ''Unauthorized to cancel this booking'', ex_booked)
   \<and> cancel_booking ex_later ex_alice ex_booking_id ex_booked
     = (Error 400 ''Cannot cancel past bookings'', ex_booked)
   \<and> cancel_booking ex_now ex_alice ex_booking_id ex_booked
     = (Success 200 ''Booking cancelled successfully'',
        ex_booked\<lparr>bookings := update_one (\<lambda>x. b_id x = ex_booking_id)
           (\<lambda>x. x\<lparr>b_status := ''Cancelled''\<rparr>) (bookings ex_booked)\<rparr>)
   \<and> cancel_booking ex_now ex_alice ''0000000000000000000000f9'' ex_booked
     = (Error 404 ''Booking not found'', ex_booked)"
proof -
  have id_ok: "ObjectId ex_booking_id = Some ex_booking_id"
    by code_simp
  have id9: "ObjectId ''0000000000000000000000f9'' = Some ''0000000000000000000000f9''"
    by code_simp
  have none: "find (\<lambda>b. b_id b = ''0000000000000000000000f9'') (bookings ex_booked) = None"
    by code_simp
  have found: "find (\<lambda>b. b_id b = ex_booking_id) (bookings ex_booked) = Some ex_booking"
    by code_simp
  have owner: "b_customer_id ex_booking \<noteq> ex_bob \<and> b_customer_id ex_booking = ex_alice
      \<and> b_status ex_booking \<noteq> ''Cancelled'' \<and> b_status ex_booking \<noteq> ''Completed''"
    by code_simp
  have slot: "combine_date_time (b_date ex_booking) (b_time_slot ex_booking)
      = Some \<lparr>dt_year = 2024, dt_month = 1, dt_day = 2, dt_hour = 10, dt_minute = 0,
              dt_second = 0, dt_microsecond = 0\<rparr>"
    by code_simp
  have order: "dt_less ex_now \<lparr>dt_year = 2024, dt_month = 1, dt_day = 2, dt_hour = 10,
        dt_minute = 0, dt_second = 0, dt_microsecond = 0\<rparr>
      \<and> \<not> dt_less ex_later \<lparr>dt_year = 2024, dt_month = 1, dt_day = 2, dt_hour = 10,
        dt_minute = 0, dt_second = 0, dt_microsecond = 0\<rparr>"
    by code_simp
  have forbidden: "cancel_booking ex_now ex_bob ex_booking_id ex_booked
      = (Error 403 ''Unauthorized to cancel this booking'', ex_booked)"
    using cancel_booking_chain [OF reachable_ex_booked id_ok, where now = ex_now and cid = ex_bob]
      found owner by blast
  have missing: "cancel_booking ex_now ex_alice ''0000000000000000000000f9'' ex_booked
      = (Error 404 ''Booking not found'', ex_booked)"
    using cancel_booking_chain [OF reachable_ex_booked id9, where now = ex_now and cid = ex_alice]
      none by blast
  have past: "cancel_booking ex_later ex_alice ex_booking_id ex_booked
      = (Error 400 ''Cannot cancel past bookings'', ex_booked)"
  proof -
    from cancel_booking_chain [OF reachable_ex_booked id_ok, where now = ex_later
        and cid = ex_alice] found owner
    obtain instant where
      "combine_date_time (b_date ex_booking) (b_time_slot ex_booking) = Some instant"
      and step: "\<not> dt_less ex_later instant
        \<longrightarrow> cancel_booking ex_later ex_alice ex_booking_id ex_booked
            = (Error 400 ''Cannot cancel past bookings'', ex_booked)"
      by blast
    with slot order have "\<not> dt_less ex_later instant"
      by simp
    with step show ?thesis
      by blast
  qed
  have cancelled: "cancel_booking ex_now ex_alice ex_booking_id ex_booked
      = (Success 200 ''Booking cancelled successfully'',
         ex_booked\<lparr>bookings := update_one (\<lambda>x. b_id x = ex_booking_id)
           (\<lambda>x. x\<lparr>b_status := ''Cancelled''\<rparr>) (bookings ex_booked)\<rparr>)"
  proof -
    from cancel_booking_chain [OF reachable_ex_booked id_ok, where now = ex_now
        and cid = ex_alice] found owner
    obtain instant where
      "combine_date_time (b_date ex_booking) (b_time_slot ex_booking) = Some instant"
      and step: "dt_less ex_now instant
        \<longrightarrow> cancel_booking ex_now ex_alice ex_booking_id ex_booked
            = (Success 200 ''Booking cancelled successfully'',
               ex_booked\<lparr>bookings := update_one (\<lambda>x. b_id x = ex_booking_id)
                 (\<lambda>x. x\<lparr>b_status := ''Cancelled''\<rparr>) (bookings ex_booked)\<rparr>)"
      by blast
    with slot order have "dt_less ex_now instant"
      by simp
    with step show ?thesis
      by blast
  qed
  show ?thesis
    using forbidden missing past cancelled by blast
qed

text \<open>
  Claim C4, as the code has it. A request to cancel a booking whose status is already
  \<^verbatim>\<open>Completed\<close> or \<^verbatim>\<open>Cancelled\<close> is answered 400
  \<^verbatim>\<open>Cannot cancel a completed/cancelled booking\<close> (\<open>InvalidTransition\<close>) when the
  caller is the customer of the booking; any other caller is answered 403
  (\<open>Forbidden\<close>), since the ownership check comes first. The store is unchanged in both
  cases.
\<close>

theorem cancel_finished_booking:
  assumes "ObjectId booking_id = Some oid"
    and "find (\<lambda>b. b_id b = oid) (bookings s) = Some b"
    and "b_status b = ''Completed'' \<or> b_status b = ''Cancelled''"
  shows
  "(b_customer_id b = caller
      \<longrightarrow> cancel_booking now caller booking_id s
          = (Error 400 (''Cannot cancel a ''
               @ (if b_status b = ''Cancelled'' then ''cancelled'' else ''completed'')
               @ '' booking''), s))
   \<and> (b_customer_id b \<noteq> caller
      \<longrightarrow> cancel_booking now caller booking_id s
          = (Error 403 ''Unauthorized to cancel this booking'', s))"
  using assms by (auto simp: cancel_booking_def)

theorem cancel_finished_booking_witness:
  "cancel_booking ex_now ex_alice ex_booking_id ex_completed
     = (Error 400 ''Cannot cancel a completed booking'', ex_completed)
   \<and> cancel_booking ex_now ex_bob ex_booking_id ex_completed
     = (Error 403 ''Unauthorized to cancel this booking'', ex_completed)"
proof -
  have id_ok: "ObjectId ex_booking_id = Some ex_booking_id"
    by code_simp
  have found: "find (\<lambda>b. b_id b = ex_booking_id) (bookings ex_completed)
      = Some (ex_booking\<lparr>b_status := ''Completed''\<rparr>)"
    by code_simp
  have st: "b_status (ex_booking\<lparr>b_status := ''Completed''\<rparr>) = ''Completed''
      \<or> b_status (ex_booking\<lparr>b_status := ''Completed''\<rparr>) = ''Cancelled''"
    by simp
  have who: "b_customer_id (ex_booking\<lparr>b_status := ''Completed''\<rparr>) = ex_alice
      \<and> b_customer_id (ex_booking\<lparr>b_status := ''Completed''\<rparr>) \<noteq> ex_bob"
    by code_simp
  have msg: "''Cannot cancel a ''
      @ (if b_status (ex_booking\<lparr>b_status := ''Completed''\<rparr>) = ''Cancelled''
         then ''cancelled'' else ''completed'') @ '' booking''
      = ''Cannot cancel a completed booking''"
    by simp
  have owner: "cancel_booking ex_now ex_alice ex_booking_id ex_completed
      = (Error 400 ''Cannot cancel a completed booking'', ex_completed)"
    using cancel_finished_booking [OF id_ok found st, where caller = ex_alice and now = ex_now]
      who unfolding msg by blast
  have other: "cancel_booking ex_now ex_bob ex_booking_id ex_completed
      = (Error 403 ''Unauthorized to cancel this booking'', ex_completed)"
    using cancel_finished_booking [OF id_ok found st, where caller = ex_bob and now = ex_now]
      who by blast
  show ?thesis
    using owner other by blast
qed

text \<open>
  The claim as worded (every caller gets \<open>InvalidTransition\<close>) fails: Bob asks to
  cancel Alice's completed booking and is answered 403, not 400.
\<close>

theorem cancel_any_caller_counterexample:
  "reachable ex_completed
   \<and> find (\<lambda>b. b_id b = ex_booking_id) (bookings ex_completed)
       = Some (ex_booking\<lparr>b_status := ''Completed''\<rparr>)
   \<and> cancel_booking ex_now ex_bob ex_booking_id ex_completed
       = (Error 403 ''Unauthorized to cancel this booking'', ex_completed)
   \<and> fst (cancel_booking ex_now ex_bob ex_booking_id ex_completed)
       \<noteq> Error 400 ''Cannot cancel a completed booking''"
proof -
  have "find (\<lambda>b. b_id b = ex_booking_id) (bookings ex_completed)
       = Some (ex_booking\<lparr>b_status := ''Completed''\<rparr>)
   \<and> cancel_booking ex_now ex_bob ex_booking_id ex_completed
       = (Error 403 ''Unauthorized to cancel this booking'', ex_completed)"
    by code_simp
  then show ?thesis
    using reachable_ex_completed by simp
qed

subsection \<open>The admin status update\<close>

text \<open>
  Claim C5. For a booking on file and a new status among \<^verbatim>\<open>Pending\<close>,
  \<^verbatim>\<open>Confirmed\<close>, \<^verbatim>\<open>Completed\<close> and \<^verbatim>\<open>Cancelled\<close>, \<^verbatim>\<open>update_booking_status\<close>
  succeeds whatever the current status is and the booking then has the new status; a
  status outside the four is answered 400 (\<open>ValidationError\<close>) with the store unchanged.
\<close>

theorem update_booking_status_unrestricted:
  "(ObjectId booking_id = Some oid \<and> find (\<lambda>b. b_id b = oid) (bookings s) = Some b
      \<and> new_status \<in> set [''Pending'', ''Confirmed'', ''Completed'', ''Cancelled'']
      \<longrightarrow> update_booking_status booking_id (Some new_status) s
            = (Success 200 (b_status b, new_status),
               s\<lparr>bookings := update_one (\<lambda>x. b_id x = oid)
                    (\<lambda>x. x\<lparr>b_status := new_status\<rparr>) (bookings s)\<rparr>)
          \<and> find (\<lambda>x. b_id x = oid)
                (bookings (snd (update_booking_status booking_id (Some new_status) s)))
              = Some (b\<lparr>b_status := new_status\<rparr>))
   \<and> (new_status \<notin> set [''Pending'', ''Confirmed'', ''Completed'', ''Cancelled'']
      \<longrightarrow> update_booking_status booking_id (Some new_status) s
            = (Error 400 ''Invalid status. Must be one of: Pending, Confirmed, Completed, Cancelled'', s))"
proof (intro conjI impI)
  assume ok: "ObjectId booking_id = Some oid \<and> find (\<lambda>b. b_id b = oid) (bookings s) = Some b
      \<and> new_status \<in> set [''Pending'', ''Confirmed'', ''Completed'', ''Cancelled'']"
  then show upd: "update_booking_status booking_id (Some new_status) s
            = (Success 200 (b_status b, new_status),
               s\<lparr>bookings := update_one (\<lambda>x. b_id x = oid)
                    (\<lambda>x. x\<lparr>b_status := new_status\<rparr>) (bookings s)\<rparr>)"
    by (simp add: update_booking_status_def valid_statuses_def Let_def)
  from ok have "find (\<lambda>b. b_id b = oid) (bookings s) = Some b"
    by simp
  from find_update_one_id [OF this] upd
  show "find (\<lambda>x. b_id x = oid)
          (bookings (snd (update_booking_status booking_id (Some new_status) s)))
        = Some (b\<lparr>b_status := new_status\<rparr>)"
    by simp
next
  assume "new_status \<notin> set [''Pending'', ''Confirmed'', ''Completed'', ''Cancelled'']"
  then show "update_booking_status booking_id (Some new_status) s
            = (Error 400 ''Invalid status. Must be one of: Pending, Confirmed, Completed, Cancelled'', s)"
    by (simp add: update_booking_status_def valid_statuses_def)
qed

theorem update_booking_status_unrestricted_witness:
  "find (\<lambda>x. b_id x = ex_booking_id)
       (bookings (snd (update_booking_status ex_booking_id (Some ''Pending'') ex_completed)))
     = Some (ex_booking\<lparr>b_status := ''Completed'', b_status := ''Pending''\<rparr>)
   \<and> find (\<lambda>x. b_id x = ex_booking_id)
       (bookings (snd (update_booking_status ex_booking_id (Some ''Confirmed'') ex_cancelled)))
     = Some (ex_booking\<lparr>b_status := ''Cancelled'', b_status := ''Confirmed''\<rparr>)
   \<and> update_booking_status ex_booking_id (Some ''Vacation'') ex_booked
     = (Error 400 ''Invalid status. Must be one of: Pending, Confirmed, Completed, Cancelled'',
        ex_booked)"
proof -
  have id_ok: "ObjectId ex_booking_id = Some ex_booking_id"
    by code_simp
  have f1: "find (\<lambda>b. b_id b = ex_booking_id) (bookings ex_completed)
      = Some (ex_booking\<lparr>b_status := ''Completed''\<rparr>)"
    by code_simp
  have f2: "find (\<lambda>b. b_id b = ex_booking_id) (bookings ex_cancelled)
      = Some (ex_booking\<lparr>b_status := ''Cancelled''\<rparr>)"
    by code_simp
  have st: "''Pending'' \<in> set [''Pending'', ''Confirmed'', ''Completed'', ''Cancelled'']
      \<and> ''Confirmed'' \<in> set [''Pending'', ''Confirmed'', ''Completed'', ''Cancelled'']
      \<and> ''Vacation'' \<notin> set [''Pending'', ''Confirmed'', ''Completed'', ''Cancelled'']"
    by simp
  have reopen1: "find (\<lambda>x. b_id x = ex_booking_id)
       (bookings (snd (update_booking_status ex_booking_id (Some ''Pending'') ex_completed)))
     = Some (ex_booking\<lparr>b_status := ''Completed'', b_status := ''Pending''\<rparr>)"
    using update_booking_status_unrestricted [where booking_id = ex_booking_id
        and oid = ex_booking_id and s = ex_completed and new_status = "''Pending''"
        and b = "ex_booking\<lparr>b_status := ''Completed''\<rparr>"] id_ok f1 st
    by blast
  have reopen2: "find (\<lambda>x. b_id x = ex_booking_id)
       (bookings (snd (update_booking_status ex_booking_id (Some ''Confirmed'') ex_cancelled)))
     = Some (ex_booking\<lparr>b_status := ''Cancelled'', b_status := ''Confirmed''\<rparr>)"
    using update_booking_status_unrestricted [where booking_id = ex_booking_id
        and oid = ex_booking_id and s = ex_cancelled and new_status = "''Confirmed''"
        and b = "ex_booking\<lparr>b_status := ''Cancelled''\<rparr>"] id_ok f2 st
    by blast
  have refused: "update_booking_status ex_booking_id (Some ''Vacation'') ex_booked
     = (Error 400 ''Invalid status. Must be one of: Pending, Confirmed, Completed, Cancelled'',
        ex_booked)"
    using update_booking_status_unrestricted [where booking_id = ex_booking_id
        and s = ex_booked and new_status = "''Vacation''"] st
    by blast
  show ?thesis
    using reopen1 reopen2 refused by blast
qed

subsection \<open>The price of a booking\<close>




subsection \<open>Time slots\<close>

lemma is_digit_val: "is_digit c \<Longrightarrow> digit_val c \<le> 9 \<and> c \<noteq> CHR '':''"
  by (auto simp: is_digit_def digit_val_def)

lemma tens_digit_val: "c \<in> set ''012345'' \<Longrightarrow> digit_val c \<le> 5 \<and> is_digit c"
  by (auto simp: is_digit_def digit_val_def)

lemma hour_digit_val:
  "c \<in> set ''01'' \<Longrightarrow> digit_val c \<le> 1 \<and> is_digit c"
  "c \<in> set ''0123'' \<Longrightarrow> digit_val c \<le> 3 \<and> is_digit c"
  "digit_val CHR ''2'' = 2 \<and> is_digit CHR ''2''"
  by (auto simp: is_digit_def digit_val_def)

lemma parse_time_short:
  assumes "is_digit h" "m1 \<in> set ''012345''" "is_digit m2"
  shows "parse_time [h, CHR '':'', m1, m2] = Some (digit_val h, 10 * digit_val m1 + digit_val m2)
         \<and> digit_val h \<le> 23 \<and> 10 * digit_val m1 + digit_val m2 \<le> 59"
proof -
  from assms have b: "digit_val h \<le> 9" "h \<noteq> CHR '':''" "digit_val m1 \<le> 5" "is_digit m1"
      "digit_val m2 \<le> 9"
    using is_digit_val tens_digit_val by blast+
  with assms show ?thesis
    by (simp add: parse_time_def split_at_def digit_field_def number_def)
qed

lemma parse_time_long:
  assumes "is_digit h1" "is_digit h2" "10 * digit_val h1 + digit_val h2 \<le> 23"
    "m1 \<in> set ''012345''" "is_digit m2"
  shows "parse_time [h1, h2, CHR '':'', m1, m2]
           = Some (10 * digit_val h1 + digit_val h2, 10 * digit_val m1 + digit_val m2)
         \<and> 10 * digit_val m1 + digit_val m2 \<le> 59"
proof -
  from assms have b: "h1 \<noteq> CHR '':''" "h2 \<noteq> CHR '':''" "digit_val m1 \<le> 5" "is_digit m1"
      "digit_val m2 \<le> 9"
    using is_digit_val tens_digit_val by blast+
  with assms show ?thesis
    by (simp add: parse_time_def split_at_def digit_field_def number_def)
qed

lemma validate_time_slot_range:
  assumes "validate_time_slot s"
  shows "\<exists>h m. parse_time (chomp s) = Some (h, m) \<and> h \<le> 23 \<and> m \<le> 59"
proof -
  consider (short) h m1 m2 where "chomp s = [h, CHR '':'', m1, m2]" "is_digit h"
      "m1 \<in> set ''012345''" "is_digit m2"
    | (long) h1 h2 m1 m2 where "chomp s = [h1, h2, CHR '':'', m1, m2]"
      "(h1 \<in> set ''01'' \<and> is_digit h2) \<or> (h1 = CHR ''2'' \<and> h2 \<in> set ''0123'')"
      "m1 \<in> set ''012345''" "is_digit m2"
    using assms unfolding validate_time_slot_def
    by (auto split: list.splits)
  then show ?thesis
  proof cases
    case short
    then show ?thesis
      using parse_time_short [of h m1 m2] by auto
  next
    case long
    from long(2) have "is_digit h1 \<and> is_digit h2 \<and> 10 * digit_val h1 + digit_val h2 \<le> 23"
    proof
      assume "h1 \<in> set ''01'' \<and> is_digit h2"
      then show ?thesis
        using hour_digit_val(1) [of h1] is_digit_val [of h2] by auto
    next
      assume "h1 = CHR ''2'' \<and> h2 \<in> set ''0123''"
      then show ?thesis
        using hour_digit_val(2) [of h2] hour_digit_val(3) by auto
    qed
    with long show ?thesis
      using parse_time_long [of h1 h2 m1 m2] by auto
  qed
qed

lemma digit_char_props:
  assumes "n < 10"
  shows "is_digit (digit_char n) \<and> digit_val (digit_char n) = n \<and> digit_char n \<noteq> CHR '':''"
proof -
  from assms have "n \<in> set [0, 1, 2, 3, 4, 5, 6, 7, 8, 9]"
    by auto
  then show ?thesis
    by (auto simp: digit_char_def is_digit_def digit_val_def)
qed

lemma digit_char_mod: "digit_char n = digit_char (n mod 10)"
  by (simp add: digit_char_def)

lemma digit_char_tens:
  assumes "n < 6"
  shows "digit_char n \<in> set ''012345''"
proof -
  from assms have "n \<in> set [0, 1, 2, 3, 4, 5]"
    by auto
  then show ?thesis
    by (auto simp: digit_char_def)
qed

lemma zero_pad2_minute:
  assumes "m < 60"
  shows "\<exists>m1 m2. zero_pad2 m = [m1, m2] \<and> m1 \<in> set ''012345'' \<and> is_digit m2
          \<and> 10 * digit_val m1 + digit_val m2 = m"
proof -
  from assms have "m div 10 < 6" by simp
  then have t: "digit_char (m div 10) \<in> set ''012345''"
    by (rule digit_char_tens)
  have u: "is_digit (digit_char m) \<and> digit_val (digit_char m) = m mod 10"
    using digit_char_props [of "m mod 10"] digit_char_mod [of m] by simp
  have "digit_val (digit_char (m div 10)) = m div 10"
    using digit_char_props [of "m div 10"] assms by simp
  with t u show ?thesis
    by (simp add: zero_pad2_def)
qed

text \<open>The two spellings of a time before ten o'clock.\<close>

lemma two_spellings:
  assumes "h < 10" "m < 60"
  shows "validate_time_slot (digit_char h # '':'' @ zero_pad2 m)
         \<and> validate_time_slot (zero_pad2 h @ '':'' @ zero_pad2 m)
         \<and> digit_char h # '':'' @ zero_pad2 m \<noteq> zero_pad2 h @ '':'' @ zero_pad2 m
         \<and> parse_time (digit_char h # '':'' @ zero_pad2 m) = Some (h, m)
         \<and> parse_time (zero_pad2 h @ '':'' @ zero_pad2 m) = Some (h, m)"
proof -
  from zero_pad2_minute [OF assms(2)] obtain m1 m2 where
    mm: "zero_pad2 m = [m1, m2]" "m1 \<in> set ''012345''" "is_digit m2"
      "10 * digit_val m1 + digit_val m2 = m"
    by blast
  have hd: "is_digit (digit_char h)" "digit_val (digit_char h) = h"
    using digit_char_props [OF assms(1)] by simp_all
  have zero: "digit_char (h div 10) = CHR ''0''"
    using assms(1) by (simp add: digit_char_def)
  have z: "is_digit CHR ''0''" "digit_val CHR ''0'' = 0" "CHR ''0'' \<in> set ''01''"
    by (simp_all add: is_digit_def digit_val_def)
  have nl: "m2 \<noteq> CHR 0x0A"
    using mm(3) by (auto simp: is_digit_def)
  have v1: "validate_time_slot (digit_char h # '':'' @ zero_pad2 m)"
    using mm hd nl by (simp add: validate_time_slot_def chomp_def)
  have v2: "validate_time_slot (zero_pad2 h @ '':'' @ zero_pad2 m)"
    using mm hd nl zero z by (simp add: validate_time_slot_def chomp_def zero_pad2_def)
  have p1: "parse_time (digit_char h # '':'' @ zero_pad2 m) = Some (h, m)"
    using parse_time_short [OF hd(1) mm(2) mm(3)] mm hd by simp
  have p2: "parse_time (zero_pad2 h @ '':'' @ zero_pad2 m) = Some (h, m)"
    using parse_time_long [OF z(1) hd(1) _ mm(2) mm(3)] mm hd zero z assms(1)
    by (simp add: zero_pad2_def)
  have ne: "digit_char h # '':'' @ zero_pad2 m \<noteq> zero_pad2 h @ '':'' @ zero_pad2 m"
    using mm(1) by (simp add: zero_pad2_def)
  from v1 v2 ne p1 p2 show ?thesis by blast
qed

lemma slot_query_none:
  assumes "(sid, d, t) \<notin> set (map slot_key bs)"
  shows "find (\<lambda>b. b_service_id b = sid \<and> b_date b = d \<and> b_time_slot b = t
                  \<and> b_status b \<notin> set [''Cancelled'']) bs = None"
  using assms by (force simp: find_None_iff slot_key_def)

text \<open>
  Claim C10. Every string \<^verbatim>\<open>validate_time_slot\<close> accepts denotes an hour 0..23 and a
  minute 0..59 (read by \<^verbatim>\<open>strptime\<close> after a final newline, which the pattern's
  \<^verbatim>\<open>$\<close> lets through, is taken off). For an hour below ten both the one-digit and
  the two-digit spelling are accepted, they are different strings, and they denote the
  same clock time. The slot check compares strings: with a live booking under the
  one-digit spelling on file, a request for the same service and date under the
  two-digit spelling (otherwise valid, its own key free) is accepted, and the store
  then holds two live bookings for the same service, date and clock time.
\<close>

theorem time_slot_spellings:
  "(validate_time_slot ts
      \<longrightarrow> (\<exists>hh mm. parse_time (chomp ts) = Some (hh, mm) \<and> hh \<le> 23 \<and> mm \<le> 59))
   \<and> (h < 10 \<and> m < 60
      \<longrightarrow> validate_time_slot (digit_char h # '':'' @ zero_pad2 m)
          \<and> validate_time_slot (zero_pad2 h @ '':'' @ zero_pad2 m)
          \<and> digit_char h # '':'' @ zero_pad2 m \<noteq> zero_pad2 h @ '':'' @ zero_pad2 m
          \<and> parse_time (digit_char h # '':'' @ zero_pad2 m) = Some (h, m)
          \<and> parse_time (zero_pad2 h @ '':'' @ zero_pad2 m) = Some (h, m)
          \<and> (rq_service_id data = Some sid \<and> rq_date data = Some d
               \<and> rq_time_slot data = Some (zero_pad2 h @ '':'' @ zero_pad2 m)
               \<and> is_future_datetime now d (zero_pad2 h @ '':'' @ zero_pad2 m) = Some True
               \<and> ObjectId sid = Some soid
               \<and> find (\<lambda>sv. sv_id sv = soid) (services s) = Some service
               \<and> sv_status service = ''Active''
               \<and> ObjectId cid = Some coid
               \<and> find (\<lambda>u. u_id u = coid) (users s) = Some customer
               \<and> nid \<notin> set (map b_id (bookings s))
               \<and> (sid, d, zero_pad2 h @ '':'' @ zero_pad2 m) \<notin> set (map slot_key (bookings s))
               \<and> e \<in> set (bookings s)
               \<and> slot_key e = (sid, d, digit_char h # '':'' @ zero_pad2 m)
               \<and> b_status e \<noteq> ''Cancelled''
             \<longrightarrow> (\<exists>b. create_booking now nid cid data s
                          = (Success 201 b, s\<lparr>bookings := bookings s @ [b]\<rparr>)
                      \<and> b_service_id b = b_service_id e \<and> b_date b = b_date e
                      \<and> b_status b \<noteq> ''Cancelled''
                      \<and> b_time_slot b \<noteq> b_time_slot e
                      \<and> parse_time (b_time_slot b) = parse_time (b_time_slot e))))"
proof (intro conjI impI)
  assume "validate_time_slot ts"
  then show "\<exists>hh mm. parse_time (chomp ts) = Some (hh, mm) \<and> hh \<le> 23 \<and> mm \<le> 59"
    by (rule validate_time_slot_range)
next
  assume hm: "h < 10 \<and> m < 60"
  then have sp: "validate_time_slot (digit_char h # '':'' @ zero_pad2 m)
         \<and> validate_time_slot (zero_pad2 h @ '':'' @ zero_pad2 m)
         \<and> digit_char h # '':'' @ zero_pad2 m \<noteq> zero_pad2 h @ '':'' @ zero_pad2 m
         \<and> parse_time (digit_char h # '':'' @ zero_pad2 m) = Some (h, m)
         \<and> parse_time (zero_pad2 h @ '':'' @ zero_pad2 m) = Some (h, m)"
    using two_spellings [of h m] by blast
  from sp show "validate_time_slot (digit_char h # '':'' @ zero_pad2 m)" by blast
  from sp show "validate_time_slot (zero_pad2 h @ '':'' @ zero_pad2 m)" by blast
  from sp show "digit_char h # '':'' @ zero_pad2 m \<noteq> zero_pad2 h @ '':'' @ zero_pad2 m" by blast
  from sp show "parse_time (digit_char h # '':'' @ zero_pad2 m) = Some (h, m)" by blast
  from sp show "parse_time (zero_pad2 h @ '':'' @ zero_pad2 m) = Some (h, m)" by blast
  assume rq: "rq_service_id data = Some sid \<and> rq_date data = Some d
               \<and> rq_time_slot data = Some (zero_pad2 h @ '':'' @ zero_pad2 m)
               \<and> is_future_datetime now d (zero_pad2 h @ '':'' @ zero_pad2 m) = Some True
               \<and> ObjectId sid = Some soid
               \<and> find (\<lambda>sv. sv_id sv = soid) (services s) = Some service
               \<and> sv_status service = ''Active''
               \<and> ObjectId cid = Some coid
               \<and> find (\<lambda>u. u_id u = coid) (users s) = Some customer
               \<and> nid \<notin> set (map b_id (bookings s))
               \<and> (sid, d, zero_pad2 h @ '':'' @ zero_pad2 m) \<notin> set (map slot_key (bookings s))
               \<and> e \<in> set (bookings s)
               \<and> slot_key e = (sid, d, digit_char h # '':'' @ zero_pad2 m)
               \<and> b_status e \<noteq> ''Cancelled''"
  define two where "two = zero_pad2 h @ '':'' @ zero_pad2 m"
  define b where "b = \<lparr>b_id = nid, b_customer_id = cid,
                       b_customer_name = u_name customer, b_customer_email = u_email customer,
                       b_service_id = sid, b_service_title = sv_title service,
                       b_date = d, b_time_slot = two,
                       b_base_price = sv_base_price service,
                       b_final_price = fst (calculate_booking_price now service s),
                       b_discount_applied = snd (calculate_booking_price now service s),
                       b_status = ''Pending'',
                       b_notes = (case rq_notes data of None \<Rightarrow> [] | Some n \<Rightarrow> n)\<rparr>"
  have q: "find (\<lambda>b. b_service_id b = sid \<and> b_date b = d \<and> b_time_slot b = two
                  \<and> b_status b \<notin> set [''Cancelled'']) (bookings s) = None"
    using rq slot_query_none [of sid d two "bookings s"] by (simp add: two_def)
  have "create_booking now nid cid data s
      = (Success 201 b, s\<lparr>bookings := bookings s @ [b]\<rparr>)"
    using create_booking_insert [where data = data and sid = sid and d = d and t = two
        and now = now and soid = soid and s = s and service = service
        and coid = coid and customer = customer and nid = nid and cid = cid] rq sp q
    by (simp add: two_def b_def Let_def)
  moreover have "b_service_id b = b_service_id e \<and> b_date b = b_date e
      \<and> b_status b \<noteq> ''Cancelled'' \<and> b_time_slot b \<noteq> b_time_slot e
      \<and> parse_time (b_time_slot b) = parse_time (b_time_slot e)"
    using rq sp by (auto simp: b_def two_def slot_key_def)
  ultimately show "\<exists>b. create_booking now nid cid data s
                          = (Success 201 b, s\<lparr>bookings := bookings s @ [b]\<rparr>)
                      \<and> b_service_id b = b_service_id e \<and> b_date b = b_date e
                      \<and> b_status b \<noteq> ''Cancelled''
                      \<and> b_time_slot b \<noteq> b_time_slot e
                      \<and> parse_time (b_time_slot b) = parse_time (b_time_slot e)"
    by blast
qed

theorem time_slot_spellings_witness:
  "validate_time_slot ''9:30'' \<and> validate_time_slot ''09:30''
   \<and> parse_time ''9:30'' = Some (9, 30) \<and> parse_time ''09:30'' = Some (9, 30)
   \<and> (\<exists>hh mm. parse_time (chomp ''23:59'') = Some (hh, mm) \<and> hh \<le> 23 \<and> mm \<le> 59)
   \<and> (\<exists>b. create_booking ex_now ''0000000000000000000000f2'' ex_bob ex_nine_request
              ex_nine_booked
            = (Success 201 b, ex_nine_booked\<lparr>bookings := bookings ex_nine_booked @ [b]\<rparr>)
          \<and> b_service_id b = b_service_id ex_nine \<and> b_date b = b_date ex_nine
          \<and> b_status b \<noteq> ''Cancelled'' \<and> b_time_slot b \<noteq> b_time_slot ex_nine
          \<and> parse_time (b_time_slot b) = parse_time (b_time_slot ex_nine))"
proof -
  have one: "digit_char 9 # '':'' @ zero_pad2 30 = ''9:30''"
    by code_simp
  have two: "zero_pad2 9 @ '':'' @ zero_pad2 30 = ''09:30''"
    by code_simp
  have ok: "validate_time_slot ''23:59''"
    by code_simp
  have hm: "(9::nat) < 10 \<and> (30::nat) < 60"
    by simp
  have rq: "rq_service_id ex_nine_request = Some ex_service_id
      \<and> rq_date ex_nine_request = Some ''2024-01-02''
      \<and> rq_time_slot ex_nine_request = Some ''09:30''
      \<and> is_future_datetime ex_now ''2024-01-02'' ''09:30'' = Some True
      \<and> ObjectId ex_service_id = Some ex_service_id
      \<and> find (\<lambda>sv. sv_id sv = ex_service_id) (services ex_nine_booked) = Some ex_service
      \<and> sv_status ex_service = ''Active''
      \<and> ObjectId ex_bob = Some ex_bob
      \<and> find (\<lambda>u. u_id u = ex_bob) (users ex_nine_booked)
          = Some \<lparr>u_id = ex_bob, u_name = ''Bob'', u_email = ''bob@example.com''\<rparr>
      \<and> ''0000000000000000000000f2'' \<notin> set (map b_id (bookings ex_nine_booked))
      \<and> (ex_service_id, ''2024-01-02'', ''09:30'') \<notin> set (map slot_key (bookings ex_nine_booked))
      \<and> ex_nine \<in> set (bookings ex_nine_booked)
      \<and> slot_key ex_nine = (ex_service_id, ''2024-01-02'', ''9:30'')
      \<and> b_status ex_nine \<noteq> ''Cancelled''"
    by code_simp
  note T = time_slot_spellings [where h = 9 and m = 30 and ts = "''23:59''"
      and data = ex_nine_request and sid = ex_service_id and d = "''2024-01-02''"
      and now = ex_now and soid = ex_service_id and s = ex_nine_booked
      and service = ex_service and cid = ex_bob and coid = ex_bob
      and customer = "\<lparr>u_id = ex_bob, u_name = ''Bob'', u_email = ''bob@example.com''\<rparr>"
      and nid = "''0000000000000000000000f2''" and e = ex_nine, unfolded one two]
  show ?thesis
    using T ok hm rq by blast
qed

subsection \<open>Discount windows\<close>

lemma overlap_query_some:
  assumes "e \<in> set ds" "d_service_id e = sid" "d_is_active e" "d_start_date e \<le> ed"
    "sd \<le> d_end_date e"
  shows "find (\<lambda>d. d_service_id d = sid \<and> d_is_active d = True
                  \<and> d_start_date d \<le> ed \<and> d_end_date d \<ge> sd) ds \<noteq> None"
  using assms by (auto simp: find_None_iff)

lemma create_discount_success:
  assumes "create_discount nid data s = (Success code d, s')"
  shows "d_is_active d = True \<and> s' = s\<lparr>discounts := discounts s @ [d]\<rparr>
         \<and> dq_service_id data = Some (d_service_id d)
         \<and> dq_start_date data = Some (d_start_date d)
         \<and> dq_end_date data = Some (d_end_date d)
         \<and> find (\<lambda>x. d_service_id x = d_service_id d \<and> d_is_active x = True
                  \<and> d_start_date x \<le> d_end_date d \<and> d_end_date x \<ge> d_start_date d)
               (discounts s) = None"
  using assms
  unfolding create_discount_def insert_discount_def Let_def uncaught_exception_def
  by (auto split: option.splits if_splits prod.splits bool.splits)

lemma create_discount_error:
  assumes "create_discount nid data s = (Error code msg, s')"
  shows "s' = s"
  using assms
  unfolding create_discount_def insert_discount_def Let_def uncaught_exception_def
  by (auto split: option.splits if_splits prod.splits bool.splits)

lemma create_discount_overlap_refused:
  assumes "dq_service_id data = Some sid" "dq_start_date data = Some sd"
    "dq_end_date data = Some ed"
    and "find (\<lambda>d. d_service_id d = sid \<and> d_is_active d = True
                  \<and> d_start_date d \<le> ed \<and> d_end_date d \<ge> sd) (discounts s) \<noteq> None"
  shows "\<exists>code msg. create_discount nid data s = (Error code msg, s)"
proof -
  obtain r s' where res: "create_discount nid data s = (r, s')"
    by (cases "create_discount nid data s")
  show ?thesis
  proof (cases r)
    case (Error code msg)
    with res create_discount_error [of nid data s code msg s'] show ?thesis
      by simp
  next
    case (Success code d)
    with res create_discount_success [of nid data s code d s'] assms show ?thesis
      by simp
  qed
qed

lemma create_discount_checked:
  assumes "dq_service_id data = Some sid" "dq_start_date data = Some sd"
    "dq_end_date data = Some ed" "dq_discount_type data = Some ty"
    "dq_discount_value data = Some v"
    and "ObjectId sid = Some soid"
    and "find (\<lambda>sv. sv_id sv = soid) (services s) = Some service"
    and "ty \<in> set [''percentage'', ''flat'']" "0 < v" "ty = ''percentage'' \<longrightarrow> v \<le> 100"
    and "validate_date_format sd" "validate_date_format ed" "sd \<le> ed"
  shows "create_discount nid data s =
     (case find (\<lambda>d. d_service_id d = sid \<and> d_is_active d = True
                  \<and> d_start_date d \<le> ed \<and> d_end_date d \<ge> sd) (discounts s) of
        Some existing \<Rightarrow>
          (Error 409 ''An active discount already exists for this service in the specified date range'', s)
      | None \<Rightarrow>
          (let discount = \<lparr>d_id = nid, d_service_id = sid, d_discount_type = ty,
                  d_discount_value = v, d_start_date = sd, d_end_date = ed,
                  d_is_active = True\<rparr>
           in if nid \<in> set (map d_id (discounts s)) then (uncaught_exception, s)
              else (Success 201 discount, s\<lparr>discounts := discounts s @ [discount]\<rparr>)))"
proof -
  have ne: "sid \<noteq> []" "sd \<noteq> []" "ed \<noteq> []" "ty \<noteq> []"
    using assms ObjectId_nonempty validate_date_format_nonempty by auto
  have ord: "\<not> ed < sd" "\<not> v \<le> 0"
    using assms by auto
  show ?thesis
    using assms ne ord
    by (auto simp: create_discount_def validate_required_fields_def present_def
        insert_discount_def Let_def split: option.splits)
qed

text \<open>
  Claim C6. A request to create a discount whose window \<open>[start_date, end_date]\<close>
  overlaps (\<open>existing.start \<le> new.end\<close> and \<open>existing.end \<ge> new.start\<close>, the dates
  compared as the strings they are stored as) the window of an existing discount of the
  same \<^verbatim>\<open>service_id\<close> with \<^verbatim>\<open>is_active\<close> true is always refused and inserts nothing;
  when the request passes the field validation that comes first (service on file, type,
  value, date format, start not after end) the refusal is 409 (\<open>Conflict\<close>). A discount
  that is created has \<^verbatim>\<open>is_active\<close> true, and a valid request with no such overlap is
  created.
\<close>

theorem create_discount_conflict:
  "(dq_service_id data = Some sid \<and> dq_start_date data = Some sd \<and> dq_end_date data = Some ed
      \<and> e \<in> set (discounts s) \<and> d_service_id e = sid \<and> d_is_active e
      \<and> d_start_date e \<le> ed \<and> sd \<le> d_end_date e
      \<longrightarrow> (\<exists>code msg. create_discount nid data s = (Error code msg, s))
          \<and> (dq_discount_type data = Some ty \<and> dq_discount_value data = Some v
               \<and> ObjectId sid = Some soid
               \<and> find (\<lambda>sv. sv_id sv = soid) (services s) = Some service
               \<and> ty \<in> set [''percentage'', ''flat''] \<and> 0 < v
               \<and> (ty = ''percentage'' \<longrightarrow> v \<le> 100)
               \<and> validate_date_format sd \<and> validate_date_format ed \<and> sd \<le> ed
             \<longrightarrow> create_discount nid data s
                 = (Error 409 ''An active discount already exists for this service in the specified date range'', s)))
   \<and> (create_discount nid data s = (Success code dd, s')
      \<longrightarrow> d_is_active dd = True \<and> s' = s\<lparr>discounts := discounts s @ [dd]\<rparr>)
   \<and> (dq_service_id data = Some sid \<and> dq_start_date data = Some sd \<and> dq_end_date data = Some ed
       \<and> dq_discount_type data = Some ty \<and> dq_discount_value data = Some v
       \<and> ObjectId sid = Some soid
       \<and> find (\<lambda>sv. sv_id sv = soid) (services s) = Some service
       \<and> ty \<in> set [''percentage'', ''flat''] \<and> 0 < v
       \<and> (ty = ''percentage'' \<longrightarrow> v \<le> 100)
       \<and> validate_date_format sd \<and> validate_date_format ed \<and> sd \<le> ed
       \<and> (\<forall>x \<in> set (discounts s). \<not> (d_service_id x = sid \<and> d_is_active x
                \<and> d_start_date x \<le> ed \<and> sd \<le> d_end_date x))
       \<and> nid \<notin> set (map d_id (discounts s))
      \<longrightarrow> create_discount nid data s
          = (Success 201 \<lparr>d_id = nid, d_service_id = sid, d_discount_type = ty,
                d_discount_value = v, d_start_date = sd, d_end_date = ed,
                d_is_active = True\<rparr>,
             s\<lparr>discounts := discounts s @
                [\<lparr>d_id = nid, d_service_id = sid, d_discount_type = ty,
                  d_discount_value = v, d_start_date = sd, d_end_date = ed,
                  d_is_active = True\<rparr>]\<rparr>))"
proof (intro conjI impI)
  assume a: "dq_service_id data = Some sid \<and> dq_start_date data = Some sd
      \<and> dq_end_date data = Some ed
      \<and> e \<in> set (discounts s) \<and> d_service_id e = sid \<and> d_is_active e
      \<and> d_start_date e \<le> ed \<and> sd \<le> d_end_date e"
  then have q: "find (\<lambda>d. d_service_id d = sid \<and> d_is_active d = True
                  \<and> d_start_date d \<le> ed \<and> d_end_date d \<ge> sd) (discounts s) \<noteq> None"
    using overlap_query_some [of e "discounts s" sid ed sd] by blast
  with a show "\<exists>code msg. create_discount nid data s = (Error code msg, s)"
    using create_discount_overlap_refused [of data sid sd ed s nid] by blast
  assume v: "dq_discount_type data = Some ty \<and> dq_discount_value data = Some v
               \<and> ObjectId sid = Some soid
               \<and> find (\<lambda>sv. sv_id sv = soid) (services s) = Some service
               \<and> ty \<in> set [''percentage'', ''flat''] \<and> 0 < v
               \<and> (ty = ''percentage'' \<longrightarrow> v \<le> 100)
               \<and> validate_date_format sd \<and> validate_date_format ed \<and> sd \<le> ed"
  from q obtain existing where "find (\<lambda>d. d_service_id d = sid \<and> d_is_active d = True
                  \<and> d_start_date d \<le> ed \<and> d_end_date d \<ge> sd) (discounts s) = Some existing"
    by blast
  then show "create_discount nid data s
      = (Error 409 ''An active discount already exists for this service in the specified date range'', s)"
    using create_discount_checked [of data sid sd ed ty v soid s service nid] a v
    by simp
next
  assume "create_discount nid data s = (Success code dd, s')"
  then have "d_is_active dd = True \<and> s' = s\<lparr>discounts := discounts s @ [dd]\<rparr>"
    using create_discount_success [of nid data s code dd s'] by blast
  then show "d_is_active dd = True" and "s' = s\<lparr>discounts := discounts s @ [dd]\<rparr>"
    by blast+
next
  assume a: "dq_service_id data = Some sid \<and> dq_start_date data = Some sd
       \<and> dq_end_date data = Some ed
       \<and> dq_discount_type data = Some ty \<and> dq_discount_value data = Some v
       \<and> ObjectId sid = Some soid
       \<and> find (\<lambda>sv. sv_id sv = soid) (services s) = Some service
       \<and> ty \<in> set [''percentage'', ''flat''] \<and> 0 < v
       \<and> (ty = ''percentage'' \<longrightarrow> v \<le> 100)
       \<and> validate_date_format sd \<and> validate_date_format ed \<and> sd \<le> ed
       \<and> (\<forall>x \<in> set (discounts s). \<not> (d_service_id x = sid \<and> d_is_active x
                \<and> d_start_date x \<le> ed \<and> sd \<le> d_end_date x))
       \<and> nid \<notin> set (map d_id (discounts s))"
  then have "find (\<lambda>d. d_service_id d = sid \<and> d_is_active d = True
                  \<and> d_start_date d \<le> ed \<and> d_end_date d \<ge> sd) (discounts s) = None"
    by (auto simp: find_None_iff)
  then show "create_discount nid data s
          = (Success 201 \<lparr>d_id = nid, d_service_id = sid, d_discount_type = ty,
                d_discount_value = v, d_start_date = sd, d_end_date = ed,
                d_is_active = True\<rparr>,
             s\<lparr>discounts := discounts s @
                [\<lparr>d_id = nid, d_service_id = sid, d_discount_type = ty,
                  d_discount_value = v, d_start_date = sd, d_end_date = ed,
                  d_is_active = True\<rparr>]\<rparr>)"
    using create_discount_checked [of data sid sd ed ty v soid s service nid] a
    by (simp add: Let_def)
qed

theorem create_discount_conflict_witness:
  "create_discount ''0000000000000000000000d3''
      \<lparr>dq_service_id = Some ex_service_id, dq_discount_type = Some ''flat'',
       dq_discount_value = Some 5, dq_start_date = Some ''2024-01-15'',
       dq_end_date = Some ''2024-02-15''\<rparr> ex_store
     = (Error 409 ''An active discount already exists for this service in the specified date range'',
        ex_store)
   \<and> create_discount ''0000000000000000000000d2''
      \<lparr>dq_service_id = Some ex_service_id, dq_discount_type = Some ''percentage'',
       dq_discount_value = Some 10, dq_start_date = Some ''2024-02-01'',
       dq_end_date = Some ''2024-02-29''\<rparr> ex_store
     = (Success 201 \<lparr>d_id = ''0000000000000000000000d2'', d_service_id = ex_service_id,
           d_discount_type = ''percentage'', d_discount_value = 10,
           d_start_date = ''2024-02-01'', d_end_date = ''2024-02-29'', d_is_active = True\<rparr>,
        ex_store\<lparr>discounts := discounts ex_store @
           [\<lparr>d_id = ''0000000000000000000000d2'', d_service_id = ex_service_id,
             d_discount_type = ''percentage'', d_discount_value = 10,
             d_start_date = ''2024-02-01'', d_end_date = ''2024-02-29'',
             d_is_active = True\<rparr>]\<rparr>)"
proof -
  define q1 where "q1 = \<lparr>dq_service_id = Some ex_service_id, dq_discount_type = Some ''flat'',
       dq_discount_value = Some 5, dq_start_date = Some ''2024-01-15'',
       dq_end_date = Some ''2024-02-15''\<rparr>"
  define q2 where "q2 = \<lparr>dq_service_id = Some ex_service_id,
       dq_discount_type = Some ''percentage'',
       dq_discount_value = Some 10, dq_start_date = Some ''2024-02-01'',
       dq_end_date = Some ''2024-02-29''\<rparr>"
  have svc: "ObjectId ex_service_id = Some ex_service_id
      \<and> find (\<lambda>sv. sv_id sv = ex_service_id) (services ex_store) = Some ex_service"
    by code_simp
  have r1: "dq_service_id q1 = Some ex_service_id \<and> dq_start_date q1 = Some ''2024-01-15''
      \<and> dq_end_date q1 = Some ''2024-02-15'' \<and> dq_discount_type q1 = Some ''flat''
      \<and> dq_discount_value q1 = Some 5"
    by (simp add: q1_def)
  have r2: "dq_service_id q2 = Some ex_service_id \<and> dq_start_date q2 = Some ''2024-02-01''
      \<and> dq_end_date q2 = Some ''2024-02-29'' \<and> dq_discount_type q2 = Some ''percentage''
      \<and> dq_discount_value q2 = Some 10"
    by (simp add: q2_def)
  have over: "ex_january \<in> set (discounts ex_store) \<and> d_service_id ex_january = ex_service_id
      \<and> d_is_active ex_january \<and> d_start_date ex_january \<le> ''2024-02-15''
      \<and> ''2024-01-15'' \<le> d_end_date ex_january"
    by code_simp
  have v1: "''flat'' \<in> set [''percentage'', ''flat''] \<and> (0::rat) < 5
      \<and> (''flat'' = ''percentage'' \<longrightarrow> (5::rat) \<le> 100)
      \<and> validate_date_format ''2024-01-15'' \<and> validate_date_format ''2024-02-15''
      \<and> ''2024-01-15'' \<le> ''2024-02-15''"
    by code_simp
  have v2: "''percentage'' \<in> set [''percentage'', ''flat''] \<and> (0::rat) < 10
      \<and> (''percentage'' = ''percentage'' \<longrightarrow> (10::rat) \<le> 100)
      \<and> validate_date_format ''2024-02-01'' \<and> validate_date_format ''2024-02-29''
      \<and> ''2024-02-01'' \<le> ''2024-02-29''"
    by code_simp
  have free: "(\<forall>x \<in> set (discounts ex_store). \<not> (d_service_id x = ex_service_id \<and> d_is_active x
                \<and> d_start_date x \<le> ''2024-02-29'' \<and> ''2024-02-01'' \<le> d_end_date x))
      \<and> ''0000000000000000000000d2'' \<notin> set (map d_id (discounts ex_store))"
    by code_simp
  have c1: "create_discount ''0000000000000000000000d3'' q1 ex_store
     = (Error 409 ''An active discount already exists for this service in the specified date range'',
        ex_store)"
    using create_discount_conflict [where data = q1 and sid = ex_service_id
        and sd = "''2024-01-15''" and ed = "''2024-02-15''" and e = ex_january
        and s = ex_store and ty = "''flat''" and v = 5 and soid = ex_service_id
        and service = ex_service and nid = "''0000000000000000000000d3''"]
      svc r1 over v1
    by blast
  have c2: "create_discount ''0000000000000000000000d2'' q2 ex_store
     = (Success 201 \<lparr>d_id = ''0000000000000000000000d2'', d_service_id = ex_service_id,
           d_discount_type = ''percentage'', d_discount_value = 10,
           d_start_date = ''2024-02-01'', d_end_date = ''2024-02-29'', d_is_active = True\<rparr>,
        ex_store\<lparr>discounts := discounts ex_store @
           [\<lparr>d_id = ''0000000000000000000000d2'', d_service_id = ex_service_id,
             d_discount_type = ''percentage'', d_discount_value = 10,
             d_start_date = ''2024-02-01'', d_end_date = ''2024-02-29'',
             d_is_active = True\<rparr>]\<rparr>)"
    using create_discount_conflict [where data = q2 and sid = ex_service_id
        and sd = "''2024-02-01''" and ed = "''2024-02-29''"
        and s = ex_store and ty = "''percentage''" and v = 10 and soid = ex_service_id
        and service = ex_service and nid = "''0000000000000000000000d2''"]
      svc r2 v2 free
    by blast
  show ?thesis
    using c1 c2 unfolding q1_def q2_def by blast
qed

text \<open>
  Claim C7. \<^verbatim>\<open>update_discount\<close> checks the type, the value (against the merged
  type), the date formats and the order of the merged dates, but it never looks for
  another active discount of the service whose window the merged window overlaps, as
  \<^verbatim>\<open>create_discount\<close> does. Moving the start of the February discount into January
  succeeds and leaves two active discounts of one service with overlapping windows; the
  same window is refused with 409 when it is created
  (\<open>create_discount_same_window_refused\<close>).
\<close>

theorem update_discount_overlap_unchecked:
  "update_discount ''0000000000000000000000d2''
      \<lparr>du_discount_type = None, du_discount_value = None,
       du_start_date = Some ''2024-01-15'', du_end_date = None, du_is_active = None\<rparr>
      ex_two_discounts
     = (Success 200 (Some (ex_february\<lparr>d_start_date := ''2024-01-15''\<rparr>)),
        ex_two_discounts\<lparr>discounts :=
           [ex_january, ex_february\<lparr>d_start_date := ''2024-01-15''\<rparr>]\<rparr>)
   \<and> d_service_id ex_january = d_service_id ex_february
   \<and> d_is_active ex_january = True \<and> d_is_active ex_february = True
   \<and> d_start_date ex_january \<le> d_end_date ex_february
   \<and> ''2024-01-15'' \<le> d_end_date ex_january"
  by code_simp

lemma create_discount_same_window_refused:
  "create_discount ''0000000000000000000000d3''
      \<lparr>dq_service_id = Some ex_service_id, dq_discount_type = Some ''percentage'',
       dq_discount_value = Some 10, dq_start_date = Some ''2024-01-15'',
       dq_end_date = Some ''2024-02-29''\<rparr> ex_store
     = (Error 409 ''An active discount already exists for this service in the specified date range'',
        ex_store)"
  by code_simp

subsection \<open>Attendance\<close>






end
